theory Spec2Isabelle
  imports Complex_Main
begin

section \<open>Numbers\<close>

text \<open>
  A JavaScript number is \<open>NaN\<close>, an infinity or a finite value. Finite values are the reals
  they denote; overflow is not modelled, and rounding is written out only for the two
  metrics of a result, where a claim depends on it (see \<open>fl\<close> below). The sign of zero is
  not kept: only a division could observe it, and every divisor of the source that can be
  zero is a length or a sum that starts from \<open>+0\<close>.

  The inputs of the program are finite: the fields of a training record, the fields of the
  argument of \<open>predict\<close> and the draws of \<open>Math.random()\<close>.
\<close>

datatype jsnum = NaN | NegInf | Fin real | PosInf

fun jneg :: "jsnum \<Rightarrow> jsnum" where
  "jneg NaN = NaN"
| "jneg NegInf = PosInf"
| "jneg (Fin a) = Fin (- a)"
| "jneg PosInf = NegInf"

fun jadd :: "jsnum \<Rightarrow> jsnum \<Rightarrow> jsnum" where
  "jadd NaN y = NaN"
| "jadd x NaN = NaN"
| "jadd (Fin a) (Fin b) = Fin (a + b)"
| "jadd PosInf NegInf = NaN"
| "jadd NegInf PosInf = NaN"
| "jadd PosInf y = PosInf"
| "jadd x PosInf = PosInf"
| "jadd NegInf y = NegInf"
| "jadd x NegInf = NegInf"

definition jsub :: "jsnum \<Rightarrow> jsnum \<Rightarrow> jsnum" where
  "jsub x y = jadd x (jneg y)"

fun jmul :: "jsnum \<Rightarrow> jsnum \<Rightarrow> jsnum" where
  "jmul NaN y = NaN"
| "jmul x NaN = NaN"
| "jmul (Fin a) (Fin b) = Fin (a * b)"
| "jmul PosInf (Fin b) = (if b = 0 then NaN else if 0 < b then PosInf else NegInf)"
| "jmul NegInf (Fin b) = (if b = 0 then NaN else if 0 < b then NegInf else PosInf)"
| "jmul (Fin a) PosInf = (if a = 0 then NaN else if 0 < a then PosInf else NegInf)"
| "jmul (Fin a) NegInf = (if a = 0 then NaN else if 0 < a then NegInf else PosInf)"
| "jmul PosInf PosInf = PosInf"
| "jmul PosInf NegInf = NegInf"
| "jmul NegInf PosInf = NegInf"
| "jmul NegInf NegInf = PosInf"

fun jdiv :: "jsnum \<Rightarrow> jsnum \<Rightarrow> jsnum" where
  "jdiv NaN y = NaN"
| "jdiv x NaN = NaN"
| "jdiv (Fin a) (Fin b) =
     (if b = 0 then (if a = 0 then NaN else if 0 < a then PosInf else NegInf)
      else Fin (a / b))"
| "jdiv (Fin a) PosInf = Fin 0"
| "jdiv (Fin a) NegInf = Fin 0"
| "jdiv PosInf (Fin b) = (if 0 \<le> b then PosInf else NegInf)"
| "jdiv NegInf (Fin b) = (if 0 \<le> b then NegInf else PosInf)"
| "jdiv PosInf PosInf = NaN"
| "jdiv PosInf NegInf = NaN"
| "jdiv NegInf PosInf = NaN"
| "jdiv NegInf NegInf = NaN"

text \<open>\<open>Math.max\<close> of two arguments: \<open>NaN\<close> if either is.\<close>

fun jmax :: "jsnum \<Rightarrow> jsnum \<Rightarrow> jsnum" where
  "jmax NaN y = NaN"
| "jmax x NaN = NaN"
| "jmax (Fin a) (Fin b) = Fin (max a b)"
| "jmax PosInf y = PosInf"
| "jmax x PosInf = PosInf"
| "jmax NegInf y = y"
| "jmax x NegInf = x"

fun jtanh :: "jsnum \<Rightarrow> jsnum" where
  "jtanh NaN = NaN"
| "jtanh NegInf = Fin (- 1)"
| "jtanh (Fin a) = Fin (tanh a)"
| "jtanh PosInf = Fin 1"

fun jexp :: "jsnum \<Rightarrow> jsnum" where
  "jexp NaN = NaN"
| "jexp NegInf = Fin 0"
| "jexp (Fin a) = Fin (exp a)"
| "jexp PosInf = PosInf"

fun jsqrt :: "jsnum \<Rightarrow> jsnum" where
  "jsqrt NaN = NaN"
| "jsqrt NegInf = NaN"
| "jsqrt (Fin a) = (if a < 0 then NaN else Fin (sqrt a))"
| "jsqrt PosInf = PosInf"

text \<open>\<open>Math.pow(x, 2)\<close>\<close>

fun jpow2 :: "jsnum \<Rightarrow> jsnum" where
  "jpow2 NaN = NaN"
| "jpow2 NegInf = PosInf"
| "jpow2 (Fin a) = Fin (a ^ 2)"
| "jpow2 PosInf = PosInf"

text \<open>The comparisons \<open>x >= y\<close> and \<open>x < y\<close>: false as soon as one side is \<open>NaN\<close>.\<close>

fun jge :: "jsnum \<Rightarrow> jsnum \<Rightarrow> bool" where
  "jge NaN y = False"
| "jge x NaN = False"
| "jge (Fin a) (Fin b) = (b \<le> a)"
| "jge PosInf y = True"
| "jge x NegInf = True"
| "jge x PosInf = False"
| "jge NegInf y = False"


text \<open>
  \<open>params.field || d\<close>: a field that is absent (\<open>undefined\<close>) or \<open>0\<close> is falsy and yields
  the default \<open>d\<close>.
\<close>

definition js_or :: "real option \<Rightarrow> real \<Rightarrow> real" where
  "js_or v d = (case v of None \<Rightarrow> d | Some x \<Rightarrow> if x = 0 then d else x)"

subsection \<open>Rounding to a double\<close>

text \<open>
  \<open>rne\<close> rounds to the nearest integer, ties to even. \<open>fl x\<close> is the double nearest to \<open>x\<close>,
  ties to even: 53 significant bits, exponent range unbounded (no overflow, no subnormal
  numbers). A decimal literal of the source denotes the double nearest to it.
\<close>

definition rne :: "real \<Rightarrow> int" where
  "rne q =
     (let n = \<lfloor>q\<rfloor>; f = q - of_int n
      in if f < 1 / 2 then n else if 1 / 2 < f then n + 1 else if even n then n else n + 1)"

definition fl :: "real \<Rightarrow> real" where
  "fl x =
     (if x = 0 then 0
      else let e = \<lfloor>log 2 \<bar>x\<bar>\<rfloor>; u = 2 powr (of_int e - 52)
           in of_int (rne (x / u)) * u)"

definition lit :: "real \<Rightarrow> real" where
  "lit q = fl q"

subsection \<open>The random source\<close>

text \<open>
  \<open>Math.random()\<close> is a stream \<open>rnd\<close>: the call number \<open>k\<close>, counted from 0, returns \<open>rnd k\<close>.
  Every function that draws takes the position of its first draw.
\<close>

type_synonym rng = "nat \<Rightarrow> real"

definition in_unit :: "rng \<Rightarrow> bool" where
  "in_unit rnd = (\<forall>n. 0 \<le> rnd n \<and> rnd n < 1)"

definition const_rng :: "real \<Rightarrow> rng" where
  "const_rng c = (\<lambda>n. c)"

section \<open>Data model (aiModels.ts)\<close>

text \<open>
  The interface \<open>EDMTrainingData\<close> is declared in \<open>datasetLoader.ts\<close>; its fields are those
  of the records that \<open>generateSyntheticData\<close> builds.
\<close>

record EDMTrainingData =
  voltage :: real
  current :: real
  pulseOnTime :: real
  pulseOffTime :: real
  wireSpeed :: real
  dielectricFlow :: real
  materialRemovalRate :: real
  surfaceRoughness :: real
  dimensionalAccuracy :: real
  processingTime :: real

text \<open>The object \<open>weights\<close> captured by the SVM predictor.\<close>

record SVMWeights =
  voltage :: jsnum
  current :: jsnum
  pulseOn :: jsnum
  pulseOff :: jsnum

text \<open>
  The argument of \<open>predict\<close> (typed \<open>any\<close> in the source): the six fields the predictors
  read, each possibly absent.
\<close>

record Params =
  laserPower :: "real option"
  speed :: "real option"
  thickness :: "real option"
  linearEnergy :: "real option"
  surfaceRoughness :: "real option"
  deviation :: "real option"

definition empty_params :: Params where
  "empty_params = \<lparr>laserPower = None, speed = None, thickness = None, linearEnergy = None,
     Params.surfaceRoughness = None, deviation = None\<rparr>"

record Prediction =
  materialRemovalRate :: jsnum
  surfaceRoughness :: jsnum
  dimensionalAccuracy :: jsnum
  processingTime :: jsnum

record ModelResult =
  accuracy :: real
  trainingTime :: int
  samples :: nat
  rmse :: real
  predict :: "Params \<Rightarrow> Prediction"

section \<open>Synthetic data (generateSyntheticData)\<close>

text \<open>One loop iteration: seven draws, in source order, starting at position \<open>k\<close>.\<close>

definition synthRecord :: "rng \<Rightarrow> nat \<Rightarrow> EDMTrainingData" where
  "synthRecord rnd k =
     (let voltage = 2.5 + rnd k * 3.5;
          current = 1500 + rnd (k + 1) * 3100;
          pulseOnTime = 2 + rnd (k + 2) * 8;
          pulseOffTime = 33 + rnd (k + 3) * 207;
          wireSpeed = 1500 + rnd (k + 4) * 3100;
          dielectricFlow = 0.7 + rnd (k + 5) * 0.8
      in \<lparr>EDMTrainingData.voltage = voltage,
          EDMTrainingData.current = current,
          pulseOnTime = pulseOnTime,
          pulseOffTime = pulseOffTime,
          wireSpeed = wireSpeed,
          dielectricFlow = dielectricFlow,
          EDMTrainingData.materialRemovalRate = (voltage * current * pulseOnTime) / 1000,
          EDMTrainingData.surfaceRoughness = dielectricFlow,
          EDMTrainingData.dimensionalAccuracy = 0.070 + rnd (k + 6) * 0.155,
          EDMTrainingData.processingTime = max 1 (60 - (current / 100) - (voltage * 2))\<rparr>)"

text \<open>The \<open>for\<close> loop with \<open>n\<close> iterations left; each iteration appends one record.\<close>

primrec synthLoop :: "rng \<Rightarrow> nat \<Rightarrow> nat \<Rightarrow> EDMTrainingData list" where
  "synthLoop rnd 0 k = []"
| "synthLoop rnd (Suc n) k = synthRecord rnd k # synthLoop rnd n (k + 7)"

definition generateSyntheticData :: "rng \<Rightarrow> nat \<Rightarrow> EDMTrainingData list \<times> nat" where
  "generateSyntheticData rnd k = (synthLoop rnd 100 k, k + 700)"

text \<open>
  \<open>useRealData ? await loadEDMDataset() : generateSyntheticData()\<close>. The loader lives in
  \<open>datasetLoader.ts\<close>; its result is the parameter \<open>realData\<close>. The second component is the
  position of the next draw.
\<close>

definition loadData :: "bool \<Rightarrow> EDMTrainingData list \<Rightarrow> rng \<Rightarrow> EDMTrainingData list \<times> nat" where
  "loadData useRealData realData rnd =
     (if useRealData then (realData, 0) else generateSyntheticData rnd 0)"

section \<open>Data statistics\<close>

text \<open>\<open>values.reduce((sum, val) => sum + val, 0) / values.length\<close>\<close>

definition mean_of :: "jsnum list \<Rightarrow> jsnum" where
  "mean_of values =
     jdiv (foldl (\<lambda>sum val. jadd sum val) (Fin 0) values) (Fin (real (length values)))"

definition calculateVariance :: "real list \<Rightarrow> jsnum" where
  "calculateVariance values =
     (let mean = mean_of (map Fin values);
          squaredDiffs = map (\<lambda>val. jpow2 (jsub (Fin val) mean)) values
      in mean_of squaredDiffs)"

record DataStatistics =
  correlationFactor :: jsnum
  varianceFactor :: jsnum
  sampleSize :: nat

definition calculateDataStatistics :: "EDMTrainingData list \<Rightarrow> DataStatistics" where
  "calculateDataStatistics data =
     (let voltageVariance = calculateVariance (map EDMTrainingData.voltage data);
          currentVariance = calculateVariance (map EDMTrainingData.current data);
          mrrVariance = calculateVariance (map EDMTrainingData.materialRemovalRate data)
      in \<lparr>correlationFactor = jdiv (jsqrt (jmul voltageVariance currentVariance)) (Fin 1000),
          varianceFactor = jdiv (jsqrt mrrVariance) (Fin 10),
          sampleSize = length data\<rparr>)"

section \<open>The shared parts of the predictors\<close>

text \<open>The four normalised inputs of the ANN, ELM and GA predictors.\<close>

definition normInputs :: "Params \<Rightarrow> jsnum list" where
  "normInputs params =
     [Fin (js_or (laserPower params) 3 / 6),
      Fin (js_or (speed params) 3000 / 5000),
      Fin (js_or (thickness params) 4 / 10),
      Fin (js_or (linearEnergy params) 60 / 250)]"

text \<open>\<open>xs.reduce((sum, x, i) => sum + x * w(i), 0)\<close>\<close>

definition reduceIdx :: "(nat \<Rightarrow> jsnum) \<Rightarrow> jsnum list \<Rightarrow> jsnum" where
  "reduceIdx w xs =
     foldl (\<lambda>sum (x, i). jadd sum (jmul x (w i))) (Fin 0) (zip xs [0..<length xs])"

text \<open>
  The two metrics of a result: \<open>lo + Math.random() * width\<close>, a product and a sum of
  doubles, each rounded.
\<close>

definition metric :: "real \<Rightarrow> real \<Rightarrow> real \<Rightarrow> real" where
  "metric lo width draw = fl (lit lo + fl (draw * lit width))"

section \<open>SVM (trainSVM)\<close>

definition svmWeights :: "EDMTrainingData list \<Rightarrow> SVMWeights" where
  "svmWeights data =
     (let avgVoltage = mean_of (map (\<lambda>d. Fin (EDMTrainingData.voltage d)) data);
          avgCurrent = mean_of (map (\<lambda>d. Fin (EDMTrainingData.current d)) data);
          avgMRR = mean_of (map (\<lambda>d. Fin (EDMTrainingData.materialRemovalRate d)) data)
      in \<lparr>SVMWeights.voltage = jmul (jdiv avgMRR avgVoltage) (Fin 0.8),
          SVMWeights.current = jmul (jdiv avgMRR avgCurrent) (Fin 1.2),
          pulseOn = Fin (- 0.008),
          pulseOff = Fin 0.003\<rparr>)"

definition svmPredict :: "SVMWeights \<Rightarrow> Params \<Rightarrow> Prediction" where
  "svmPredict weights params =
     \<lparr>materialRemovalRate = jmax (Fin 0)
        (jadd
          (jsub
            (jadd (jmul (SVMWeights.voltage weights) (Fin (js_or (laserPower params) 0)))
                  (jdiv (jmul (SVMWeights.current weights) (Fin (js_or (speed params) 0)))
                        (Fin 100)))
            (jmul (pulseOn weights) (Fin (js_or (thickness params) 0))))
          (jdiv (jmul (pulseOff weights) (Fin (js_or (linearEnergy params) 0))) (Fin 10))),
      surfaceRoughness = jmax (Fin 0.1) (Fin (js_or (Params.surfaceRoughness params) 1)),
      dimensionalAccuracy = jmax (Fin 1) (jmul (Fin (js_or (deviation params) 0.1)) (Fin 1000)),
      processingTime = jmax (Fin 1)
        (jsub (jsub (Fin 60) (jdiv (Fin (js_or (speed params) 1000)) (Fin 100)))
              (jmul (Fin (js_or (laserPower params) 1)) (Fin 2)))\<rparr>"

text \<open>
  \<open>t0\<close> and \<open>t1\<close> are the two readings of \<open>Date.now()\<close>. The object literal draws for
  \<open>accuracy\<close> first and for \<open>rmse\<close> second.
\<close>

definition trainSVM ::
  "bool \<Rightarrow> EDMTrainingData list \<Rightarrow> rng \<Rightarrow> int \<Rightarrow> int \<Rightarrow> ModelResult" where
  "trainSVM useRealData realData rnd t0 t1 =
     (let (data, k) = loadData useRealData realData rnd;
          weights = svmWeights data
      in \<lparr>accuracy = metric 0.87 0.08 (rnd k),
          trainingTime = t1 - t0,
          samples = length data,
          rmse = metric 0.12 0.08 (rnd (k + 1)),
          predict = svmPredict weights\<rparr>)"

section \<open>ANN (trainANN)\<close>

text \<open>\<open>Array.from({ length: n }, () => Math.random() * a - b)\<close>, first draw at position \<open>k\<close>.\<close>

definition randomArray :: "rng \<Rightarrow> nat \<Rightarrow> nat \<Rightarrow> real \<Rightarrow> real \<Rightarrow> real list" where
  "randomArray rnd k n a b = map (\<lambda>i. rnd (k + i) * a - b) [0..<n]"

definition annPredict :: "jsnum list \<Rightarrow> jsnum list \<Rightarrow> Params \<Rightarrow> Prediction" where
  "annPredict hiddenWeights outputWeights params =
     (let inputs = normInputs params;
          hidden = map (\<lambda>(input, i).
                      jtanh (jadd (jmul input (hiddenWeights ! i)) (hiddenWeights ! (i + 4))))
                     (zip inputs [0..<length inputs])
      in \<lparr>materialRemovalRate = jmax (Fin 0)
            (jmul (jadd (jmul (hidden ! 0) (outputWeights ! 0))
                        (jmul (hidden ! 1) (outputWeights ! 1)))
                  (Fin 8)),
          surfaceRoughness = jmax (Fin 0.1) (Fin (js_or (Params.surfaceRoughness params) 1)),
          dimensionalAccuracy =
            jmax (Fin 1) (jmul (Fin (js_or (deviation params) 0.1)) (Fin 1000)),
          processingTime = jmax (Fin 1)
            (jadd (jmul (jmul (jadd (hidden ! 2) (hidden ! 3)) (outputWeights ! 2)) (Fin 40))
                  (Fin 20))\<rparr>)"

text \<open>The loop \<open>hiddenWeights[i] *= dataStats.correlationFactor\<close> is the \<open>map\<close>.\<close>

definition trainANN ::
  "bool \<Rightarrow> EDMTrainingData list \<Rightarrow> rng \<Rightarrow> int \<Rightarrow> int \<Rightarrow> ModelResult" where
  "trainANN useRealData realData rnd t0 t1 =
     (let (data, k) = loadData useRealData realData rnd;
          hiddenWeights0 = map Fin (randomArray rnd k 8 2 1);
          outputWeights = map Fin (randomArray rnd (k + 8) 4 2 1);
          dataStats = calculateDataStatistics data;
          hiddenWeights = map (\<lambda>w. jmul w (correlationFactor dataStats)) hiddenWeights0
      in \<lparr>accuracy = metric 0.91 0.06 (rnd (k + 12)),
          trainingTime = t1 - t0,
          samples = length data,
          rmse = metric 0.09 0.06 (rnd (k + 13)),
          predict = annPredict hiddenWeights outputWeights\<rparr>)"

section \<open>ELM (trainELM)\<close>

definition elmPredict :: "jsnum list \<Rightarrow> jsnum list \<Rightarrow> Params \<Rightarrow> Prediction" where
  "elmPredict inputWeights biases params =
     (let inputs = normInputs params;
          hiddenOutputs =
            map (\<lambda>(input, i).
                  jdiv (Fin 1)
                    (jadd (Fin 1)
                      (jexp (jneg (jadd (jmul input (inputWeights ! i)) (biases ! (i mod 4)))))))
              (zip inputs [0..<length inputs])
      in \<lparr>materialRemovalRate = jmax (Fin 0)
            (jmul (reduceIdx (\<lambda>i. inputWeights ! (i mod 4)) hiddenOutputs) (Fin 6)),
          surfaceRoughness = jmax (Fin 0.1) (Fin (js_or (Params.surfaceRoughness params) 1)),
          dimensionalAccuracy =
            jmax (Fin 1) (jmul (Fin (js_or (deviation params) 0.1)) (Fin 1000)),
          processingTime = jmax (Fin 1)
            (jadd (jmul (reduceIdx (\<lambda>i. inputWeights ! ((i + 12) mod 16)) hiddenOutputs)
                        (Fin 50))
                  (Fin 15))\<rparr>)"

definition trainELM ::
  "bool \<Rightarrow> EDMTrainingData list \<Rightarrow> rng \<Rightarrow> int \<Rightarrow> int \<Rightarrow> ModelResult" where
  "trainELM useRealData realData rnd t0 t1 =
     (let (data, k) = loadData useRealData realData rnd;
          inputWeights0 = map Fin (randomArray rnd k 16 4 2);
          biases = map Fin (randomArray rnd (k + 16) 4 2 1);
          dataStats = calculateDataStatistics data;
          inputWeights = map (\<lambda>w. jmul w (varianceFactor dataStats)) inputWeights0
      in \<lparr>accuracy = metric 0.94 0.04 (rnd (k + 20)),
          trainingTime = t1 - t0,
          samples = length data,
          rmse = metric 0.06 0.04 (rnd (k + 21)),
          predict = elmPredict inputWeights biases\<rparr>)"

section \<open>GA (trainGA)\<close>

text \<open>
  The weights and the fitness of an individual are sums and products of draws and
  constants, hence finite.
\<close>

record Individual =
  weights :: "real list"
  fitness :: real

text \<open>One element of the initial population: eight weight draws, then the fitness draw.\<close>

definition newIndividual :: "rng \<Rightarrow> nat \<Rightarrow> Individual" where
  "newIndividual rnd k = \<lparr>weights = randomArray rnd k 8 4 2, fitness = rnd (k + 8)\<rparr>"

primrec initPopulation :: "rng \<Rightarrow> nat \<Rightarrow> nat \<Rightarrow> Individual list" where
  "initPopulation rnd 0 k = []"
| "initPopulation rnd (Suc n) k = newIndividual rnd k # initPopulation rnd n (k + 9)"

text \<open>
  One offspring: \<open>parent.weights.map(w => w + (Math.random() - 0.5) * 0.1)\<close>, then the
  fitness draw. Returns the position of the next draw.
\<close>

definition makeOffspring :: "rng \<Rightarrow> nat \<Rightarrow> Individual \<Rightarrow> Individual \<times> nat" where
  "makeOffspring rnd k parent =
     (let n = length (weights parent) in
      (\<lparr>weights = map (\<lambda>(w, j). w + (rnd (k + j) - 0.5) * 0.1) (zip (weights parent) [0..<n]),
        fitness = fitness parent * (0.95 + rnd (k + n) * 0.1)\<rparr>,
       k + n + 1))"

text \<open>\<open>survivors.map(parent => ...)\<close>, parents visited left to right.\<close>

fun mapOffspring :: "rng \<Rightarrow> nat \<Rightarrow> Individual list \<Rightarrow> Individual list \<times> nat" where
  "mapOffspring rnd k [] = ([], k)"
| "mapOffspring rnd k (parent # ps) =
     (let (child, k') = makeOffspring rnd k parent;
          (children, k'') = mapOffspring rnd k' ps
      in (child # children, k''))"

text \<open>
  \<open>population.sort((a, b) => b.fitness - a.fitness)\<close>: a stable sort, descending by
  fitness.
\<close>

definition sortByFitness :: "Individual list \<Rightarrow> Individual list" where
  "sortByFitness population = sort_key (\<lambda>a. - fitness a) population"

text \<open>\<open>xs.splice(start, deleteCount, ...items)\<close> for \<open>start \<le> length xs\<close>.\<close>

definition splice :: "'a list \<Rightarrow> nat \<Rightarrow> nat \<Rightarrow> 'a list \<Rightarrow> 'a list" where
  "splice xs start deleteCount items = take start xs @ items @ drop (start + deleteCount) xs"

definition generation :: "rng \<Rightarrow> nat \<Rightarrow> Individual list \<Rightarrow> Individual list \<times> nat" where
  "generation rnd k population =
     (let sorted = sortByFitness population;
          survivors = take 10 sorted;
          (offspring, k') = mapOffspring rnd k survivors
      in (splice sorted 10 10 offspring, k'))"

text \<open>The evolution loop with \<open>g\<close> generations left.\<close>

primrec evolve :: "rng \<Rightarrow> nat \<Rightarrow> nat \<Rightarrow> Individual list \<Rightarrow> Individual list \<times> nat" where
  "evolve rnd 0 k population = (population, k)"
| "evolve rnd (Suc g) k population =
     (let (population', k') = generation rnd k population in evolve rnd g k' population')"

text \<open>Lines 188--206: the population after the loop, and the position of the next draw.\<close>

definition gaPopulation :: "rng \<Rightarrow> nat \<Rightarrow> Individual list \<times> nat" where
  "gaPopulation rnd k = evolve rnd 10 (k + 180) (initPopulation rnd 20 k)"

definition gaPredict :: "Individual \<Rightarrow> Params \<Rightarrow> Prediction" where
  "gaPredict bestIndividual params =
     (let features = normInputs params
      in \<lparr>materialRemovalRate = jmax (Fin 0)
            (jmul (reduceIdx (\<lambda>i. Fin (weights bestIndividual ! i)) features) (Fin 7)),
          surfaceRoughness = jmax (Fin 0.1) (Fin (js_or (Params.surfaceRoughness params) 1)),
          dimensionalAccuracy =
            jmax (Fin 1) (jmul (Fin (js_or (deviation params) 0.1)) (Fin 1000)),
          processingTime = jmax (Fin 1)
            (jadd (jmul (reduceIdx (\<lambda>i. Fin (weights bestIndividual ! (i mod 8))) features)
                        (Fin 45))
                  (Fin 25))\<rparr>)"

definition trainGA ::
  "bool \<Rightarrow> EDMTrainingData list \<Rightarrow> rng \<Rightarrow> int \<Rightarrow> int \<Rightarrow> ModelResult" where
  "trainGA useRealData realData rnd t0 t1 =
     (let (data, k) = loadData useRealData realData rnd;
          (population, k') = gaPopulation rnd k;
          bestIndividual = population ! 0
      in \<lparr>accuracy = metric 0.89 0.07 (rnd k'),
          trainingTime = t1 - t0,
          samples = length data,
          rmse = metric 0.10 0.07 (rnd (k' + 1)),
          predict = gaPredict bestIndividual\<rparr>)"

text \<open>
  Two invariants of the population used in the proofs: every weight vector has length 8,
  and every fitness is positive.
\<close>

definition wf_pop :: "Individual list \<Rightarrow> bool" where
  "wf_pop pop = (\<forall>x\<in>set pop. length (weights x) = 8)"

definition pos_pop :: "Individual list \<Rightarrow> bool" where
  "pos_pop pop = (\<forall>x\<in>set pop. 0 < fitness x)"

section \<open>The output formulas as claim C10 words them\<close>

text \<open>
  "surfaceRoughness = max(0.1, input surfaceRoughness, defaulting to 1.0)" and
  "dimensionalAccuracy = max(1, (input deviation, defaulting to 0.1) * 1000)": the default
  stands for an input that is not given.
\<close>

definition claimedSurfaceRoughness :: "Params \<Rightarrow> jsnum" where
  "claimedSurfaceRoughness params =
     Fin (max 0.1 (case Params.surfaceRoughness params of None \<Rightarrow> 1 | Some x \<Rightarrow> x))"

definition claimedDimensionalAccuracy :: "Params \<Rightarrow> jsnum" where
  "claimedDimensionalAccuracy params =
     Fin (max 1 ((case deviation params of None \<Rightarrow> 0.1 | Some x \<Rightarrow> x) * 1000))"

section \<open>Material and grade (ParameterPanel.tsx)\<close>

datatype param_key =
  Material | Grade | Thickness | LaserPower | Speed | GasAndPressure
  | SurfaceRoughness | Deviation | KerfTaper | HazDepth | LinearEnergy

datatype pvalue = Str string | Num real | Undefined

datatype js_error = TypeError

definition materialOptions :: "string list" where
  "materialOptions = [''Mild Steel'', ''Stainless Steel'', ''Aluminium'', ''Titanium'']"

text \<open>
  The object \<open>gradeOptions\<close>: its own properties, and the names it inherits from
  \<open>Object.prototype\<close> (each bound to a function or an object).
\<close>

definition gradeOptions :: "string \<rightharpoonup> string list" where
  "gradeOptions = map_of
     [(''Mild Steel'', [''S355JR'']),
      (''Stainless Steel'', [''AISI 304'']),
      (''Aluminium'', [''Al-6061'']),
      (''Titanium'', [''Ti6Al4V''])]"

definition objectPrototypeKeys :: "string list" where
  "objectPrototypeKeys =
     [''constructor'', ''toString'', ''toLocaleString'', ''valueOf'', ''hasOwnProperty'',
      ''isPrototypeOf'', ''propertyIsEnumerable'', ''__proto__'', ''__defineGetter__'',
      ''__defineSetter__'', ''__lookupGetter__'', ''__lookupSetter__'']"

text \<open>
  The \<open>onChange\<close> handler of the material select. \<open>onParameterChange\<close> is a prop, taken
  as a parameter acting on the owner's state \<open>'s\<close>. Indexing \<open>undefined\<close> with \<open>[0]\<close> throws;
  indexing an empty array, or an inherited function or object, yields \<open>undefined\<close>.
\<close>

definition materialOnChange ::
  "(param_key \<Rightarrow> pvalue \<Rightarrow> 's \<Rightarrow> 's) \<Rightarrow> string \<Rightarrow> 's \<Rightarrow> js_error + 's" where
  "materialOnChange onParameterChange newMaterial s =
     (case gradeOptions newMaterial of
        None \<Rightarrow>
          if newMaterial \<in> set objectPrototypeKeys
          then Inr (onParameterChange Grade Undefined
                     (onParameterChange Material (Str newMaterial) s))
          else Inl TypeError
      | Some grades \<Rightarrow>
          (let newGrade = (case grades of [] \<Rightarrow> Undefined | g # _ \<Rightarrow> Str g)
           in Inr (onParameterChange Grade newGrade
                    (onParameterChange Material (Str newMaterial) s))))"

text \<open>A callback that only records its calls, oldest first.\<close>

definition recordCall :: "param_key \<Rightarrow> pvalue \<Rightarrow> (param_key \<times> pvalue) list \<Rightarrow> (param_key \<times> pvalue) list" where
  "recordCall key val calls = calls @ [(key, val)]"

text \<open>
  Modelled from the spec: the owner of the parameter values, whose component is not among
  the sources. Section 4.3 has \<open>update(fieldName, value)\<close> "set the named field directly";
  the values are an object with one entry per key.
\<close>

type_synonym ParameterSet = "param_key \<Rightarrow> pvalue"

definition update :: "param_key \<Rightarrow> pvalue \<Rightarrow> ParameterSet \<Rightarrow> ParameterSet" where
  "update key val ps = ps(key := val)"

section \<open>Training panel (AIModelPanel)\<close>

text \<open>
  The component state, with what the closures and the timer hold made explicit:
  \<open>intervals\<close> are the running \<open>setInterval\<close> timers, each with the \<open>selectedModel\<close> its
  callback captured; \<open>trained\<close> lists the calls of the prop \<open>onTrainModel\<close> by their first
  argument, oldest first. The results map is owned by the caller of the component and
  changes only through these calls.
\<close>

record PanelState =
  selectedModel :: string
  trainingProgress :: nat
  isTraining :: bool
  intervals :: "(nat \<times> string) list"
  nextInterval :: nat
  trained :: "string list"

definition initState :: PanelState where
  "initState = \<lparr>selectedModel = ''SVM'', trainingProgress = 0, isTraining = False,
                 intervals = [], nextInterval = 0, trained = []\<rparr>"

definition modelIds :: "string list" where
  "modelIds = [''SVM'', ''ANN'', ''ELM'', ''GA'']"

definition handleTrainModel :: "PanelState \<Rightarrow> PanelState" where
  "handleTrainModel s =
     s\<lparr>isTraining := True,
       trainingProgress := 0,
       intervals := intervals s @ [(nextInterval s, selectedModel s)],
       nextInterval := nextInterval s + 1\<rparr>"

text \<open>
  One firing of interval \<open>i\<close>: the updater passed to \<open>setTrainingProgress\<close>. A cleared
  interval does not fire.
\<close>

definition intervalTick :: "nat \<Rightarrow> PanelState \<Rightarrow> PanelState" where
  "intervalTick i s =
     (case map_of (intervals s) i of
        None \<Rightarrow> s
      | Some model \<Rightarrow>
          if trainingProgress s \<ge> 100
          then s\<lparr>intervals := filter (\<lambda>(j, m). j \<noteq> i) (intervals s),
                 isTraining := False,
                 trained := trained s @ [model],
                 trainingProgress := 100\<rparr>
          else s\<lparr>trainingProgress := trainingProgress s + 2\<rparr>)"

text \<open>
  The events of the component: a click on a model button, a click on the train button
  (which is \<open>disabled\<close> while \<open>isTraining\<close>), and a firing of a timer.
\<close>

datatype event = SelectModel string | ClickTrain | Tick nat

fun step :: "event \<Rightarrow> PanelState \<Rightarrow> PanelState" where
  "step (SelectModel m) s = (if m \<in> set modelIds then s\<lparr>selectedModel := m\<rparr> else s)"
| "step ClickTrain s = (if isTraining s then s else handleTrainModel s)"
| "step (Tick i) s = intervalTick i s"

definition run :: "event list \<Rightarrow> PanelState \<Rightarrow> PanelState" where
  "run es s = foldl (\<lambda>s e. step e s) s es"

section \<open>Test inputs\<close>

definition sampleRecord :: EDMTrainingData where
  "sampleRecord = \<lparr>EDMTrainingData.voltage = 4, EDMTrainingData.current = 2000,
     pulseOnTime = 5, pulseOffTime = 100, wireSpeed = 2000, dielectricFlow = 1,
     EDMTrainingData.materialRemovalRate = 40, EDMTrainingData.surfaceRoughness = 1,
     EDMTrainingData.dimensionalAccuracy = 0.1, EDMTrainingData.processingTime = 32\<rparr>"


section \<open>Arithmetic on finite values\<close>

lemma jsub_Fin: "jsub (Fin a) (Fin b) = Fin (a - b)"
  by (simp add: jsub_def)

lemma jge_jmax_Fin: "jge (jmax (Fin c) (Fin x)) (Fin c)"
  by simp

lemma jge_jmax_iff: "jge (jmax (Fin c) x) (Fin c) \<longleftrightarrow> x \<noteq> NaN"
  by (cases x) simp_all



lemma mean_of_Nil: "mean_of [] = NaN"
  by (simp add: mean_of_def)






lemma svmWeights_Nil:
  "SVMWeights.voltage (svmWeights []) = NaN" "SVMWeights.current (svmWeights []) = NaN"
  by (simp_all add: svmWeights_def mean_of_Nil)



section \<open>The synthetic records\<close>

lemma length_synthLoop: "length (synthLoop rnd n k) = n"
  by (induction n arbitrary: k) simp_all

lemma synthLoop_nth: "i < n \<Longrightarrow> synthLoop rnd n k ! i = synthRecord rnd (k + 7 * i)"
proof (induction n arbitrary: k i)
  case 0
  then show ?case by simp
next
  case (Suc n)
  show ?case
  proof (cases i)
    case 0
    then show ?thesis by simp
  next
    case (Suc j)
    with Suc.prems have "j < n" by simp
    from Suc.IH [OF this, of "k + 7"] Suc show ?thesis by (simp add: algebra_simps)
  qed
qed

lemma in_set_synthLoop:
  "d \<in> set (synthLoop rnd n k) \<Longrightarrow> \<exists>i<n. d = synthRecord rnd (k + 7 * i)"
  by (metis in_set_conv_nth length_synthLoop synthLoop_nth)

lemma in_unitD: "in_unit rnd \<Longrightarrow> 0 \<le> rnd n \<and> rnd n < 1"
  by (simp add: in_unit_def)

lemma in_unit_const: "0 \<le> c \<Longrightarrow> c < 1 \<Longrightarrow> in_unit (const_rng c)"
  by (simp add: in_unit_def const_rng_def)

lemma synthRecord_fields:
  "synthRecord rnd k =
     \<lparr>EDMTrainingData.voltage = 2.5 + rnd k * 3.5,
      EDMTrainingData.current = 1500 + rnd (k + 1) * 3100,
      pulseOnTime = 2 + rnd (k + 2) * 8,
      pulseOffTime = 33 + rnd (k + 3) * 207,
      wireSpeed = 1500 + rnd (k + 4) * 3100,
      dielectricFlow = 0.7 + rnd (k + 5) * 0.8,
      EDMTrainingData.materialRemovalRate =
        ((2.5 + rnd k * 3.5) * (1500 + rnd (k + 1) * 3100) * (2 + rnd (k + 2) * 8)) / 1000,
      EDMTrainingData.surfaceRoughness = 0.7 + rnd (k + 5) * 0.8,
      EDMTrainingData.dimensionalAccuracy = 0.070 + rnd (k + 6) * 0.155,
      EDMTrainingData.processingTime =
        max 1 (60 - ((1500 + rnd (k + 1) * 3100) / 100) - ((2.5 + rnd k * 3.5) * 2))\<rparr>"
  by (simp add: synthRecord_def Let_def)

lemma synthRecord_ranges:
  assumes "in_unit rnd"
  shows "2.5 \<le> EDMTrainingData.voltage (synthRecord rnd k)"
    and "EDMTrainingData.voltage (synthRecord rnd k) \<le> 6"
    and "1500 \<le> EDMTrainingData.current (synthRecord rnd k)"
    and "EDMTrainingData.current (synthRecord rnd k) \<le> 4600"
    and "2 \<le> pulseOnTime (synthRecord rnd k)"
    and "pulseOnTime (synthRecord rnd k) \<le> 10"
    and "33 \<le> pulseOffTime (synthRecord rnd k)"
    and "pulseOffTime (synthRecord rnd k) \<le> 240"
    and "0.7 \<le> dielectricFlow (synthRecord rnd k)"
    and "dielectricFlow (synthRecord rnd k) \<le> 1.5"
    and "1500 \<le> wireSpeed (synthRecord rnd k)"
    and "wireSpeed (synthRecord rnd k) \<le> 4600"
    and "0.07 \<le> EDMTrainingData.dimensionalAccuracy (synthRecord rnd k)"
    and "EDMTrainingData.dimensionalAccuracy (synthRecord rnd k) \<le> 0.225"
  using in_unitD [OF assms, of k] in_unitD [OF assms, of "k + 1"] in_unitD [OF assms, of "k + 2"]
    in_unitD [OF assms, of "k + 3"] in_unitD [OF assms, of "k + 4"] in_unitD [OF assms, of "k + 5"]
    in_unitD [OF assms, of "k + 6"]
  by (simp_all add: synthRecord_def Let_def)




lemma loadData_synth: "loadData False realData rnd = (synthLoop rnd 100 0, 700)"
  by (simp add: loadData_def generateSyntheticData_def)

lemma loadData_real: "loadData True realData rnd = (realData, 0)"
  by (simp add: loadData_def)

section \<open>The fields of a result\<close>

lemma trainSVM_fields:
  "predict (trainSVM u d rnd t0 t1) = svmPredict (svmWeights (fst (loadData u d rnd)))"
  "samples (trainSVM u d rnd t0 t1) = length (fst (loadData u d rnd))"
  "accuracy (trainSVM u d rnd t0 t1) = metric 0.87 0.08 (rnd (snd (loadData u d rnd)))"
  "rmse (trainSVM u d rnd t0 t1) = metric 0.12 0.08 (rnd (snd (loadData u d rnd) + 1))"
  by (simp_all add: trainSVM_def case_prod_beta Let_def)

lemma trainANN_fields:
  "predict (trainANN u d rnd t0 t1) =
     annPredict
       (map (\<lambda>w. jmul w (correlationFactor (calculateDataStatistics (fst (loadData u d rnd)))))
          (map Fin (randomArray rnd (snd (loadData u d rnd)) 8 2 1)))
       (map Fin (randomArray rnd (snd (loadData u d rnd) + 8) 4 2 1))"
  "samples (trainANN u d rnd t0 t1) = length (fst (loadData u d rnd))"
  "accuracy (trainANN u d rnd t0 t1) = metric 0.91 0.06 (rnd (snd (loadData u d rnd) + 12))"
  "rmse (trainANN u d rnd t0 t1) = metric 0.09 0.06 (rnd (snd (loadData u d rnd) + 13))"
  by (simp_all add: trainANN_def case_prod_beta Let_def)

lemma trainELM_fields:
  "predict (trainELM u d rnd t0 t1) =
     elmPredict
       (map (\<lambda>w. jmul w (varianceFactor (calculateDataStatistics (fst (loadData u d rnd)))))
          (map Fin (randomArray rnd (snd (loadData u d rnd)) 16 4 2)))
       (map Fin (randomArray rnd (snd (loadData u d rnd) + 16) 4 2 1))"
  "samples (trainELM u d rnd t0 t1) = length (fst (loadData u d rnd))"
  "accuracy (trainELM u d rnd t0 t1) = metric 0.94 0.04 (rnd (snd (loadData u d rnd) + 20))"
  "rmse (trainELM u d rnd t0 t1) = metric 0.06 0.04 (rnd (snd (loadData u d rnd) + 21))"
  by (simp_all add: trainELM_def case_prod_beta Let_def)

lemma trainGA_fields:
  "predict (trainGA u d rnd t0 t1) =
     gaPredict (fst (gaPopulation rnd (snd (loadData u d rnd))) ! 0)"
  "samples (trainGA u d rnd t0 t1) = length (fst (loadData u d rnd))"
  "accuracy (trainGA u d rnd t0 t1) =
     metric 0.89 0.07 (rnd (snd (gaPopulation rnd (snd (loadData u d rnd)))))"
  "rmse (trainGA u d rnd t0 t1) =
     metric 0.10 0.07 (rnd (snd (gaPopulation rnd (snd (loadData u d rnd))) + 1))"
  by (simp_all add: trainGA_def case_prod_beta Let_def)

section \<open>The outputs of the predictors\<close>


lemma length_normInputs: "length (normInputs p) = 4"
  by (simp add: normInputs_def)

lemma length_randomArray: "length (randomArray rnd k n a b) = n"
  by (simp add: randomArray_def)

lemma svmPredict_shared:
  "surfaceRoughness (svmPredict w p) = Fin (max 0.1 (js_or (Params.surfaceRoughness p) 1))"
  "dimensionalAccuracy (svmPredict w p) = Fin (max 1 (js_or (deviation p) 0.1 * 1000))"
  "processingTime (svmPredict w p) =
     Fin (max 1 (60 - js_or (speed p) 1000 / 100 - js_or (laserPower p) 1 * 2))"
  by (simp_all add: svmPredict_def jsub_Fin)

lemma annPredict_shared:
  "surfaceRoughness (annPredict hw ow p) = Fin (max 0.1 (js_or (Params.surfaceRoughness p) 1))"
  "dimensionalAccuracy (annPredict hw ow p) = Fin (max 1 (js_or (deviation p) 0.1 * 1000))"
  by (simp_all add: annPredict_def Let_def)

lemma elmPredict_shared:
  "surfaceRoughness (elmPredict iw bs p) = Fin (max 0.1 (js_or (Params.surfaceRoughness p) 1))"
  "dimensionalAccuracy (elmPredict iw bs p) = Fin (max 1 (js_or (deviation p) 0.1 * 1000))"
  by (simp_all add: elmPredict_def Let_def)

lemma gaPredict_shared:
  "surfaceRoughness (gaPredict b p) = Fin (max 0.1 (js_or (Params.surfaceRoughness p) 1))"
  "dimensionalAccuracy (gaPredict b p) = Fin (max 1 (js_or (deviation p) 0.1 * 1000))"
  by (simp_all add: gaPredict_def Let_def)






section \<open>Floors of the outputs\<close>











section \<open>The synthetic samples\<close>

text \<open>
  C7. The generator returns exactly 100 records and consumes 700 draws. Record \<open>i\<close> is built
  from the seven draws at positions \<open>k + 7 i\<close> to \<open>k + 7 i + 6\<close>, one for each random field:
  \<open>voltage = 2.5 + r * 3.5\<close>, \<open>current = 1500 + r * 3100\<close>, \<open>pulseOnTime = 2 + r * 8\<close>,
  \<open>pulseOffTime = 33 + r * 207\<close>, \<open>wireSpeed = 1500 + r * 3100\<close>,
  \<open>dielectricFlow = 0.7 + r * 0.8\<close> and \<open>dimensionalAccuracy = 0.070 + r * 0.155\<close>, the three
  remaining fields being computed from these. For draws in \<open>[0, 1)\<close>, \<open>voltage\<close> (laser
  power) lies in \<open>[2.5, 6.0]\<close>, \<open>current\<close> (speed) and \<open>wireSpeed\<close> in \<open>[1500, 4600]\<close>,
  \<open>pulseOnTime\<close> (thickness) in \<open>[2, 10]\<close>, \<open>pulseOffTime\<close> (linear energy) in \<open>[33, 240]\<close>,
  \<open>dielectricFlow\<close> in \<open>[0.7, 1.5]\<close> and \<open>dimensionalAccuracy\<close> in \<open>[0.07, 0.225]\<close>. Each of the
  four train functions, called with \<open>useRealData = false\<close>, returns \<open>samples = 100\<close>.
\<close>

theorem synthetic_samples:
  assumes "in_unit rnd"
  shows "length (fst (generateSyntheticData rnd k)) = 100 \<and>
         snd (generateSyntheticData rnd k) = k + 700 \<and>
         (\<forall>i<100. fst (generateSyntheticData rnd k) ! i =
            \<lparr>EDMTrainingData.voltage = 2.5 + rnd (k + 7 * i) * 3.5,
             EDMTrainingData.current = 1500 + rnd (k + 7 * i + 1) * 3100,
             pulseOnTime = 2 + rnd (k + 7 * i + 2) * 8,
             pulseOffTime = 33 + rnd (k + 7 * i + 3) * 207,
             wireSpeed = 1500 + rnd (k + 7 * i + 4) * 3100,
             dielectricFlow = 0.7 + rnd (k + 7 * i + 5) * 0.8,
             EDMTrainingData.materialRemovalRate =
               ((2.5 + rnd (k + 7 * i) * 3.5) * (1500 + rnd (k + 7 * i + 1) * 3100)
                 * (2 + rnd (k + 7 * i + 2) * 8)) / 1000,
             EDMTrainingData.surfaceRoughness = 0.7 + rnd (k + 7 * i + 5) * 0.8,
             EDMTrainingData.dimensionalAccuracy = 0.070 + rnd (k + 7 * i + 6) * 0.155,
             EDMTrainingData.processingTime =
               max 1 (60 - ((1500 + rnd (k + 7 * i + 1) * 3100) / 100)
                      - ((2.5 + rnd (k + 7 * i) * 3.5) * 2))\<rparr>) \<and>
         (\<forall>r \<in> set (fst (generateSyntheticData rnd k)).
            2.5 \<le> EDMTrainingData.voltage r \<and> EDMTrainingData.voltage r \<le> 6.0 \<and>
            1500 \<le> EDMTrainingData.current r \<and> EDMTrainingData.current r \<le> 4600 \<and>
            2 \<le> pulseOnTime r \<and> pulseOnTime r \<le> 10 \<and>
            33 \<le> pulseOffTime r \<and> pulseOffTime r \<le> 240 \<and>
            1500 \<le> wireSpeed r \<and> wireSpeed r \<le> 4600 \<and>
            0.7 \<le> dielectricFlow r \<and> dielectricFlow r \<le> 1.5 \<and>
            0.07 \<le> EDMTrainingData.dimensionalAccuracy r \<and>
            EDMTrainingData.dimensionalAccuracy r \<le> 0.225) \<and>
         samples (trainSVM False d rnd t0 t1) = 100 \<and>
         samples (trainANN False d rnd t0 t1) = 100 \<and>
         samples (trainELM False d rnd t0 t1) = 100 \<and>
         samples (trainGA False d rnd t0 t1) = 100"
proof -
  have len: "length (fst (generateSyntheticData rnd k)) = 100"
    by (simp add: generateSyntheticData_def length_synthLoop)
  have pos: "snd (generateSyntheticData rnd k) = k + 700"
    by (simp add: generateSyntheticData_def)
  have nth: "\<forall>i<100. fst (generateSyntheticData rnd k) ! i =
            \<lparr>EDMTrainingData.voltage = 2.5 + rnd (k + 7 * i) * 3.5,
             EDMTrainingData.current = 1500 + rnd (k + 7 * i + 1) * 3100,
             pulseOnTime = 2 + rnd (k + 7 * i + 2) * 8,
             pulseOffTime = 33 + rnd (k + 7 * i + 3) * 207,
             wireSpeed = 1500 + rnd (k + 7 * i + 4) * 3100,
             dielectricFlow = 0.7 + rnd (k + 7 * i + 5) * 0.8,
             EDMTrainingData.materialRemovalRate =
               ((2.5 + rnd (k + 7 * i) * 3.5) * (1500 + rnd (k + 7 * i + 1) * 3100)
                 * (2 + rnd (k + 7 * i + 2) * 8)) / 1000,
             EDMTrainingData.surfaceRoughness = 0.7 + rnd (k + 7 * i + 5) * 0.8,
             EDMTrainingData.dimensionalAccuracy = 0.070 + rnd (k + 7 * i + 6) * 0.155,
             EDMTrainingData.processingTime =
               max 1 (60 - ((1500 + rnd (k + 7 * i + 1) * 3100) / 100)
                      - ((2.5 + rnd (k + 7 * i) * 3.5) * 2))\<rparr>"
    by (simp add: generateSyntheticData_def synthLoop_nth synthRecord_fields)
  have rng: "2.5 \<le> EDMTrainingData.voltage r \<and> EDMTrainingData.voltage r \<le> 6.0 \<and>
            1500 \<le> EDMTrainingData.current r \<and> EDMTrainingData.current r \<le> 4600 \<and>
            2 \<le> pulseOnTime r \<and> pulseOnTime r \<le> 10 \<and>
            33 \<le> pulseOffTime r \<and> pulseOffTime r \<le> 240 \<and>
            1500 \<le> wireSpeed r \<and> wireSpeed r \<le> 4600 \<and>
            0.7 \<le> dielectricFlow r \<and> dielectricFlow r \<le> 1.5 \<and>
            0.07 \<le> EDMTrainingData.dimensionalAccuracy r \<and>
            EDMTrainingData.dimensionalAccuracy r \<le> 0.225"
    if "r \<in> set (fst (generateSyntheticData rnd k))" for r
  proof -
    from that obtain i where "r = synthRecord rnd (k + 7 * i)"
      by (auto simp: generateSyntheticData_def dest: in_set_synthLoop)
    then show ?thesis
      using synthRecord_ranges [OF assms, of "k + 7 * i"] by simp
  qed
  have s: "samples (trainSVM False d rnd t0 t1) = 100" "samples (trainANN False d rnd t0 t1) = 100"
    "samples (trainELM False d rnd t0 t1) = 100" "samples (trainGA False d rnd t0 t1) = 100"
    by (simp_all add: trainSVM_fields trainANN_fields trainELM_fields trainGA_fields
        loadData_synth length_synthLoop)
  show ?thesis
    using len pos nth rng s by blast
qed

theorem synthetic_samples_witness:
  "in_unit (const_rng (1/2)) \<and>
   length (fst (generateSyntheticData (const_rng (1/2)) 0)) = 100 \<and>
   EDMTrainingData.voltage (fst (generateSyntheticData (const_rng (1/2)) 0) ! 3) = 4.25 \<and>
   EDMTrainingData.dimensionalAccuracy (fst (generateSyntheticData (const_rng (1/2)) 0) ! 3)
     = 0.1475 \<and>
   samples (trainSVM False [] (const_rng (1/2)) 0 5) = 100 \<and>
   samples (trainANN False [] (const_rng (1/2)) 0 5) = 100 \<and>
   samples (trainELM False [] (const_rng (1/2)) 0 5) = 100 \<and>
   samples (trainGA False [] (const_rng (1/2)) 0 5) = 100"
proof -
  have u: "in_unit (const_rng (1/2))" by (simp add: in_unit_const)
  have three: "(3::nat) < 100" by simp
  from synthetic_samples [OF u, of 0 "[]" 0 5]
  have "length (fst (generateSyntheticData (const_rng (1/2)) 0)) = 100"
    and n: "\<forall>i<100. fst (generateSyntheticData (const_rng (1/2)) 0) ! i =
            \<lparr>EDMTrainingData.voltage = 2.5 + const_rng (1/2) (0 + 7 * i) * 3.5,
             EDMTrainingData.current = 1500 + const_rng (1/2) (0 + 7 * i + 1) * 3100,
             pulseOnTime = 2 + const_rng (1/2) (0 + 7 * i + 2) * 8,
             pulseOffTime = 33 + const_rng (1/2) (0 + 7 * i + 3) * 207,
             wireSpeed = 1500 + const_rng (1/2) (0 + 7 * i + 4) * 3100,
             dielectricFlow = 0.7 + const_rng (1/2) (0 + 7 * i + 5) * 0.8,
             EDMTrainingData.materialRemovalRate =
               ((2.5 + const_rng (1/2) (0 + 7 * i) * 3.5) * (1500 + const_rng (1/2) (0 + 7 * i + 1) * 3100)
                 * (2 + const_rng (1/2) (0 + 7 * i + 2) * 8)) / 1000,
             EDMTrainingData.surfaceRoughness = 0.7 + const_rng (1/2) (0 + 7 * i + 5) * 0.8,
             EDMTrainingData.dimensionalAccuracy = 0.070 + const_rng (1/2) (0 + 7 * i + 6) * 0.155,
             EDMTrainingData.processingTime =
               max 1 (60 - ((1500 + const_rng (1/2) (0 + 7 * i + 1) * 3100) / 100)
                      - ((2.5 + const_rng (1/2) (0 + 7 * i) * 3.5) * 2))\<rparr>"
    and "samples (trainSVM False [] (const_rng (1/2)) 0 5) = 100"
    and "samples (trainANN False [] (const_rng (1/2)) 0 5) = 100"
    and "samples (trainELM False [] (const_rng (1/2)) 0 5) = 100"
    and "samples (trainGA False [] (const_rng (1/2)) 0 5) = 100"
    by blast+
  moreover from n [rule_format, OF three]
  have "EDMTrainingData.voltage (fst (generateSyntheticData (const_rng (1/2)) 0) ! 3) = 4.25"
    and "EDMTrainingData.dimensionalAccuracy (fst (generateSyntheticData (const_rng (1/2)) 0) ! 3)
     = 0.1475"
    by (simp_all add: const_rng_def)
  ultimately show ?thesis using u by blast
qed

section \<open>The thickness term of the SVM\<close>









section \<open>The two outputs shared by the four kinds\<close>

text \<open>
  C10, as amended. The four predictors compute the same \<open>surfaceRoughness\<close> and
  \<open>dimensionalAccuracy\<close> for every argument, whatever the training set and the random
  coefficients: \<open>surfaceRoughness = max(0.1, s)\<close>, where \<open>s\<close> is the input surfaceRoughness
  when it is given and is not 0, and 1.0 otherwise; \<open>dimensionalAccuracy = max(1, v * 1000)\<close>,
  where \<open>v\<close> is the input deviation when it is given and is not 0, and 0.1 otherwise. These
  are the formulas of the claim except at the input 0.
\<close>

theorem shared_outputs:
  "\<forall>m \<in> {trainSVM u d rnd t0 t1, trainANN u d rnd t0 t1, trainELM u d rnd t0 t1,
           trainGA u d rnd t0 t1}.
     surfaceRoughness (predict m p) =
       Fin (max 0.1 (case Params.surfaceRoughness p of None \<Rightarrow> 1
                     | Some x \<Rightarrow> if x = 0 then 1 else x)) \<and>
     dimensionalAccuracy (predict m p) =
       Fin (max 1 ((case deviation p of None \<Rightarrow> 0.1
                    | Some x \<Rightarrow> if x = 0 then 0.1 else x) * 1000)) \<and>
     (Params.surfaceRoughness p \<noteq> Some 0 \<longrightarrow>
        surfaceRoughness (predict m p) = claimedSurfaceRoughness p) \<and>
     (deviation p \<noteq> Some 0 \<longrightarrow>
        dimensionalAccuracy (predict m p) = claimedDimensionalAccuracy p)"
proof
  fix m
  assume "m \<in> {trainSVM u d rnd t0 t1, trainANN u d rnd t0 t1, trainELM u d rnd t0 t1,
           trainGA u d rnd t0 t1}"
  then consider "m = trainSVM u d rnd t0 t1" | "m = trainANN u d rnd t0 t1"
    | "m = trainELM u d rnd t0 t1" | "m = trainGA u d rnd t0 t1" by auto
  then have eq: "surfaceRoughness (predict m p) = Fin (max 0.1 (js_or (Params.surfaceRoughness p) 1))"
    "dimensionalAccuracy (predict m p) = Fin (max 1 (js_or (deviation p) 0.1 * 1000))"
  proof (atomize (full), cases)
    case 1
    show "surfaceRoughness (predict m p) = Fin (max 0.1 (js_or (Params.surfaceRoughness p) 1)) \<and>
      dimensionalAccuracy (predict m p) = Fin (max 1 (js_or (deviation p) 0.1 * 1000))"
      unfolding 1 trainSVM_fields(1) using svmPredict_shared(1,2) by (intro conjI)
  next
    case 2
    show "surfaceRoughness (predict m p) = Fin (max 0.1 (js_or (Params.surfaceRoughness p) 1)) \<and>
      dimensionalAccuracy (predict m p) = Fin (max 1 (js_or (deviation p) 0.1 * 1000))"
      unfolding 2 trainANN_fields(1) using annPredict_shared by (intro conjI)
  next
    case 3
    show "surfaceRoughness (predict m p) = Fin (max 0.1 (js_or (Params.surfaceRoughness p) 1)) \<and>
      dimensionalAccuracy (predict m p) = Fin (max 1 (js_or (deviation p) 0.1 * 1000))"
      unfolding 3 trainELM_fields(1) using elmPredict_shared by (intro conjI)
  next
    case 4
    show "surfaceRoughness (predict m p) = Fin (max 0.1 (js_or (Params.surfaceRoughness p) 1)) \<and>
      dimensionalAccuracy (predict m p) = Fin (max 1 (js_or (deviation p) 0.1 * 1000))"
      unfolding 4 trainGA_fields(1) using gaPredict_shared by (intro conjI)
  qed
  show "surfaceRoughness (predict m p) =
       Fin (max 0.1 (case Params.surfaceRoughness p of None \<Rightarrow> 1
                     | Some x \<Rightarrow> if x = 0 then 1 else x)) \<and>
     dimensionalAccuracy (predict m p) =
       Fin (max 1 ((case deviation p of None \<Rightarrow> 0.1
                    | Some x \<Rightarrow> if x = 0 then 0.1 else x) * 1000)) \<and>
     (Params.surfaceRoughness p \<noteq> Some 0 \<longrightarrow>
        surfaceRoughness (predict m p) = claimedSurfaceRoughness p) \<and>
     (deviation p \<noteq> Some 0 \<longrightarrow>
        dimensionalAccuracy (predict m p) = claimedDimensionalAccuracy p)"
    unfolding eq
    by (auto simp: js_or_def claimedSurfaceRoughness_def claimedDimensionalAccuracy_def
        split: option.splits)
qed

theorem shared_outputs_witness:
  "Params.surfaceRoughness (empty_params\<lparr>Params.surfaceRoughness := Some 1.2\<rparr>) \<noteq> Some 0 \<and>
   deviation (empty_params\<lparr>Params.surfaceRoughness := Some 1.2\<rparr>) \<noteq> Some 0 \<and>
   surfaceRoughness (predict (trainANN True [] (const_rng (1/2)) 0 5)
      (empty_params\<lparr>Params.surfaceRoughness := Some 1.2\<rparr>)) = Fin 1.2 \<and>
   surfaceRoughness (predict (trainANN True [] (const_rng (1/2)) 0 5)
      (empty_params\<lparr>Params.surfaceRoughness := Some 1.2\<rparr>))
     = claimedSurfaceRoughness (empty_params\<lparr>Params.surfaceRoughness := Some 1.2\<rparr>) \<and>
   dimensionalAccuracy (predict (trainELM True [] (const_rng (1/2)) 0 5)
      (empty_params\<lparr>Params.surfaceRoughness := Some 1.2\<rparr>)) = Fin 100 \<and>
   dimensionalAccuracy (predict (trainGA True [] (const_rng (1/2)) 0 5)
      (empty_params\<lparr>Params.surfaceRoughness := Some 1.2\<rparr>))
     = claimedDimensionalAccuracy (empty_params\<lparr>Params.surfaceRoughness := Some 1.2\<rparr>)"
proof -
  let ?p = "empty_params\<lparr>Params.surfaceRoughness := Some 1.2\<rparr>"
  have s: "Params.surfaceRoughness ?p = Some 1.2" and v: "deviation ?p = None"
    by (simp_all add: empty_params_def)
  have ns: "Params.surfaceRoughness ?p \<noteq> Some 0" and nv: "deviation ?p \<noteq> Some 0"
    by (simp_all add: empty_params_def)
  note t = shared_outputs [of True "[]" "const_rng (1/2)" 0 5 ?p, THEN bspec]
  have "trainANN True [] (const_rng (1/2)) 0 5 \<in>
      {trainSVM True [] (const_rng (1/2)) 0 5, trainANN True [] (const_rng (1/2)) 0 5,
       trainELM True [] (const_rng (1/2)) 0 5, trainGA True [] (const_rng (1/2)) 0 5}"
    by simp
  note ann = t [OF this]
  have "trainELM True [] (const_rng (1/2)) 0 5 \<in>
      {trainSVM True [] (const_rng (1/2)) 0 5, trainANN True [] (const_rng (1/2)) 0 5,
       trainELM True [] (const_rng (1/2)) 0 5, trainGA True [] (const_rng (1/2)) 0 5}"
    by simp
  note elm = t [OF this]
  have "trainGA True [] (const_rng (1/2)) 0 5 \<in>
      {trainSVM True [] (const_rng (1/2)) 0 5, trainANN True [] (const_rng (1/2)) 0 5,
       trainELM True [] (const_rng (1/2)) 0 5, trainGA True [] (const_rng (1/2)) 0 5}"
    by simp
  note ga = t [OF this]
  have a1: "surfaceRoughness (predict (trainANN True [] (const_rng (1/2)) 0 5) ?p) = Fin 1.2"
    unfolding ann [THEN conjunct1] s by simp
  have a2: "surfaceRoughness (predict (trainANN True [] (const_rng (1/2)) 0 5) ?p)
      = claimedSurfaceRoughness ?p"
    using ann [THEN conjunct2, THEN conjunct2, THEN conjunct1] ns by (rule mp)
  have e1: "dimensionalAccuracy (predict (trainELM True [] (const_rng (1/2)) 0 5) ?p) = Fin 100"
    unfolding elm [THEN conjunct2, THEN conjunct1] v by simp
  have g1: "dimensionalAccuracy (predict (trainGA True [] (const_rng (1/2)) 0 5) ?p)
      = claimedDimensionalAccuracy ?p"
    using ga [THEN conjunct2, THEN conjunct2, THEN conjunct2] nv by (rule mp)
  from ns nv a1 a2 e1 g1 show ?thesis by (intro conjI)
qed

text \<open>
  C10 as stated fails at the input 0: the claim's formulas give \<open>max(0.1, 0) = 0.1\<close> and
  \<open>max(1, 0 * 1000) = 1\<close>, while the predictors replace the 0 by the default and return 1.0 and
  100.
\<close>

theorem shared_outputs_counterexample:
  "surfaceRoughness (predict (trainSVM True [sampleRecord] (const_rng (1/2)) 0 5)
      (empty_params\<lparr>Params.surfaceRoughness := Some 0, deviation := Some 0\<rparr>)) = Fin 1 \<and>
   claimedSurfaceRoughness
      (empty_params\<lparr>Params.surfaceRoughness := Some 0, deviation := Some 0\<rparr>) = Fin 0.1 \<and>
   dimensionalAccuracy (predict (trainSVM True [sampleRecord] (const_rng (1/2)) 0 5)
      (empty_params\<lparr>Params.surfaceRoughness := Some 0, deviation := Some 0\<rparr>)) = Fin 100 \<and>
   claimedDimensionalAccuracy
      (empty_params\<lparr>Params.surfaceRoughness := Some 0, deviation := Some 0\<rparr>) = Fin 1 \<and>
   surfaceRoughness (predict (trainSVM True [sampleRecord] (const_rng (1/2)) 0 5)
      (empty_params\<lparr>Params.surfaceRoughness := Some 0, deviation := Some 0\<rparr>))
     \<noteq> claimedSurfaceRoughness
      (empty_params\<lparr>Params.surfaceRoughness := Some 0, deviation := Some 0\<rparr>)"
  by (simp add: trainSVM_fields(1) svmPredict_shared js_or_def empty_params_def
      claimedSurfaceRoughness_def claimedDimensionalAccuracy_def)

section \<open>The genetic algorithm\<close>

lemma length_initPopulation: "length (initPopulation rnd n k) = n"
  by (induction n arbitrary: k) simp_all

lemma wf_pop_Nil: "wf_pop []"
  by (simp add: wf_pop_def)

lemma wf_pop_Cons: "wf_pop (x # xs) \<longleftrightarrow> length (weights x) = 8 \<and> wf_pop xs"
  by (simp add: wf_pop_def)

lemma wf_pop_append: "wf_pop (xs @ ys) \<longleftrightarrow> wf_pop xs \<and> wf_pop ys"
  by (auto simp: wf_pop_def)

lemma pos_pop_Nil: "pos_pop []"
  by (simp add: pos_pop_def)

lemma pos_pop_Cons: "pos_pop (x # xs) \<longleftrightarrow> 0 < fitness x \<and> pos_pop xs"
  by (simp add: pos_pop_def)

lemma pos_pop_append: "pos_pop (xs @ ys) \<longleftrightarrow> pos_pop xs \<and> pos_pop ys"
  by (auto simp: pos_pop_def)

lemma wf_initPopulation: "wf_pop (initPopulation rnd n k)"
  by (induction n arbitrary: k)
    (simp_all add: wf_pop_Nil wf_pop_Cons newIndividual_def length_randomArray)

lemma pos_initPopulation:
  assumes "\<forall>n. 0 < rnd n"
  shows "pos_pop (initPopulation rnd n k)"
proof (induction n arbitrary: k)
  case 0
  show ?case by (simp add: pos_pop_Nil)
next
  case (Suc n)
  have "0 < rnd (k + 8)" using assms by (rule spec)
  then have "0 < fitness (newIndividual rnd k)" by (simp add: newIndividual_def)
  with Suc.IH [of "k + 9"] show ?case
    by (simp only: initPopulation.simps pos_pop_Cons simp_thms)
qed

lemma makeOffspring_simps:
  assumes "length (weights parent) = 8"
  shows "snd (makeOffspring rnd k parent) = k + 9"
    and "length (weights (fst (makeOffspring rnd k parent))) = 8"
    and "fitness (fst (makeOffspring rnd k parent)) = fitness parent * (0.95 + rnd (k + 8) * 0.1)"
  using assms by (simp_all add: makeOffspring_def Let_def)

lemma makeOffspring_pos:
  assumes "length (weights p) = 8" and "0 < fitness p" and "0 < rnd (k + 8)"
  shows "0 < fitness (fst (makeOffspring rnd k p))"
proof -
  have "0 < 0.95 + rnd (k + 8) * 0.1" using assms(3) by simp
  with assms(2) have "0 < fitness p * (0.95 + rnd (k + 8) * 0.1)" by (rule mult_pos_pos)
  then show ?thesis by (simp only: makeOffspring_simps(3) [OF assms(1)])
qed

lemma mapOffspring_Cons:
  "fst (mapOffspring rnd k (p # ps)) =
     fst (makeOffspring rnd k p) # fst (mapOffspring rnd (snd (makeOffspring rnd k p)) ps)"
  "snd (mapOffspring rnd k (p # ps)) = snd (mapOffspring rnd (snd (makeOffspring rnd k p)) ps)"
  by (simp_all add: Let_def case_prod_beta)

lemma mapOffspring_length: "length (fst (mapOffspring rnd k ps)) = length ps"
proof (induction ps arbitrary: k)
  case Nil
  then show ?case by simp
next
  case (Cons p ps)
  show ?case unfolding mapOffspring_Cons by (simp add: Cons.IH)
qed

lemma mapOffspring_pos:
  "wf_pop ps \<Longrightarrow> snd (mapOffspring rnd k ps) = k + 9 * length ps"
proof (induction ps arbitrary: k)
  case Nil
  then show ?case by simp
next
  case (Cons p ps)
  then have p: "length (weights p) = 8" and ps: "wf_pop ps"
    by (simp_all only: wf_pop_Cons)
  show ?case
    unfolding mapOffspring_Cons makeOffspring_simps(1) [OF p] Cons.IH [OF ps]
    by simp
qed

lemma mapOffspring_wf: "wf_pop ps \<Longrightarrow> wf_pop (fst (mapOffspring rnd k ps))"
proof (induction ps arbitrary: k)
  case Nil
  then show ?case by (simp add: wf_pop_Nil)
next
  case (Cons p ps)
  then have p: "length (weights p) = 8" and ps: "wf_pop ps"
    by (simp_all only: wf_pop_Cons)
  show ?case
    unfolding mapOffspring_Cons wf_pop_Cons
    using makeOffspring_simps(2) [OF p, of rnd k]
      Cons.IH [OF ps, of "snd (makeOffspring rnd k p)"]
    by (intro conjI)
qed

lemma mapOffspring_positive:
  assumes "\<forall>n. 0 < rnd n"
  shows "wf_pop ps \<Longrightarrow> pos_pop ps \<Longrightarrow> pos_pop (fst (mapOffspring rnd k ps))"
proof (induction ps arbitrary: k)
  case Nil
  then show ?case by (simp add: pos_pop_Nil)
next
  case (Cons p ps)
  then have p: "length (weights p) = 8" and f: "0 < fitness p"
    and ps: "wf_pop ps" "pos_pop ps"
    by (simp_all only: wf_pop_Cons pos_pop_Cons)
  have r: "0 < rnd (k + 8)" using assms by (rule spec)
  show ?case
    unfolding mapOffspring_Cons pos_pop_Cons
    using makeOffspring_pos [of p rnd k, OF p f r]
      Cons.IH [OF ps, of "snd (makeOffspring rnd k p)"]
    by (intro conjI)
qed

lemma wf_sortByFitness: "wf_pop (sortByFitness pop) = wf_pop pop"
  by (simp add: wf_pop_def sortByFitness_def)

lemma pos_sortByFitness: "pos_pop (sortByFitness pop) = pos_pop pop"
  by (simp add: pos_pop_def sortByFitness_def)

lemma length_sortByFitness: "length (sortByFitness pop) = length pop"
  by (simp add: sortByFitness_def)

lemma wf_take: "wf_pop pop \<Longrightarrow> wf_pop (take n pop)"
  by (auto simp: wf_pop_def dest: in_set_takeD)

lemma pos_take: "pos_pop pop \<Longrightarrow> pos_pop (take n pop)"
  by (auto simp: pos_pop_def dest: in_set_takeD)

lemma generation_eq:
  assumes "length pop = 20"
  shows "fst (generation rnd k pop) =
           take 10 (sortByFitness pop) @ fst (mapOffspring rnd k (take 10 (sortByFitness pop)))"
    and "snd (generation rnd k pop) = snd (mapOffspring rnd k (take 10 (sortByFitness pop)))"
  using assms
  by (simp_all add: generation_def splice_def Let_def length_sortByFitness case_prod_beta)

lemma generation_inv:
  assumes "length pop = 20" and "wf_pop pop"
  shows "length (fst (generation rnd k pop)) = 20"
    and "wf_pop (fst (generation rnd k pop))"
    and "snd (generation rnd k pop) = k + 90"
proof -
  let ?s = "take 10 (sortByFitness pop)"
  have wfs: "wf_pop ?s"
    using assms(2) by (intro wf_take) (simp add: wf_sortByFitness)
  have ls: "length ?s = 10"
    using assms(1) by (simp add: length_sortByFitness)
  show "length (fst (generation rnd k pop)) = 20"
    unfolding generation_eq(1) [OF assms(1)] length_append mapOffspring_length ls by simp
  show "wf_pop (fst (generation rnd k pop))"
    unfolding generation_eq(1) [OF assms(1)] wf_pop_append
    using wfs mapOffspring_wf [OF wfs, of rnd k] by (intro conjI)
  show "snd (generation rnd k pop) = k + 90"
    unfolding generation_eq(2) [OF assms(1)] mapOffspring_pos [OF wfs] ls by simp
qed

lemma generation_positive:
  assumes "\<forall>n. 0 < rnd n" and "length pop = 20" and "wf_pop pop" and "pos_pop pop"
  shows "pos_pop (fst (generation rnd k pop))"
proof -
  let ?s = "take 10 (sortByFitness pop)"
  have wfs: "wf_pop ?s"
    using assms(3) by (intro wf_take) (simp add: wf_sortByFitness)
  have ps: "pos_pop ?s"
    using assms(4) by (intro pos_take) (simp add: pos_sortByFitness)
  show ?thesis
    unfolding generation_eq(1) [OF assms(2)] pos_pop_append
    using ps mapOffspring_positive [OF assms(1) wfs ps, of k] by (intro conjI)
qed

lemma evolve_snoc:
  "evolve rnd (Suc g) k pop =
     generation rnd (snd (evolve rnd g k pop)) (fst (evolve rnd g k pop))"
proof (induction g arbitrary: k pop)
  case 0
  then show ?case by (simp add: case_prod_beta)
next
  case (Suc g)
  have "evolve rnd (Suc (Suc g)) k pop =
      evolve rnd (Suc g) (snd (generation rnd k pop)) (fst (generation rnd k pop))"
    by (simp add: case_prod_beta)
  also have "\<dots> = generation rnd
      (snd (evolve rnd g (snd (generation rnd k pop)) (fst (generation rnd k pop))))
      (fst (evolve rnd g (snd (generation rnd k pop)) (fst (generation rnd k pop))))"
    by (rule Suc.IH)
  also have "evolve rnd g (snd (generation rnd k pop)) (fst (generation rnd k pop)) =
      evolve rnd (Suc g) k pop"
    by (simp add: case_prod_beta)
  finally show ?case .
qed

lemma evolve_inv:
  assumes "length pop = 20" and "wf_pop pop"
  shows "length (fst (evolve rnd g k pop)) = 20 \<and> wf_pop (fst (evolve rnd g k pop)) \<and>
         snd (evolve rnd g k pop) = k + 90 * g"
proof (induction g)
  case 0
  then show ?case using assms by simp
next
  case (Suc g)
  then show ?case
    unfolding evolve_snoc
    using generation_inv [of "fst (evolve rnd g k pop)" rnd "snd (evolve rnd g k pop)"]
    by simp
qed

lemma evolve_positive:
  assumes "\<forall>n. 0 < rnd n" and "length pop = 20" and "wf_pop pop" and "pos_pop pop"
  shows "pos_pop (fst (evolve rnd g k pop))"
proof (induction g)
  case 0
  then show ?case using assms by simp
next
  case (Suc g)
  from evolve_inv [OF assms(2,3), of rnd g k]
  have "length (fst (evolve rnd g k pop)) = 20" "wf_pop (fst (evolve rnd g k pop))"
    by simp_all
  from generation_positive [OF assms(1) this Suc.IH]
  show ?case unfolding evolve_snoc .
qed

lemma generation_top_and_child:
  assumes "length pop = 20" and "wf_pop pop"
  shows "fst (generation rnd k pop) ! 0 = sortByFitness pop ! 0"
    and "fitness (fst (generation rnd k pop) ! 10) =
           fitness (sortByFitness pop ! 0) * (0.95 + rnd (k + 8) * 0.1)"
proof -
  let ?s = "sortByFitness pop"
  have len: "length ?s = 20" using assms(1) by (simp add: length_sortByFitness)
  then obtain x xs where s: "?s = x # xs" by (cases ?s) simp_all
  have "wf_pop ?s" using assms(2) by (simp add: wf_sortByFitness)
  then have x: "length (weights x) = 8"
    unfolding s wf_pop_Cons by simp
  have t: "take 10 ?s = x # take 9 xs"
    by (simp add: s take_Cons')
  have l9: "length (take 9 xs) = 9" using len s by simp
  show "fst (generation rnd k pop) ! 0 = ?s ! 0"
    unfolding generation_eq(1) [OF assms(1)] t by (simp add: s)
  have "fst (generation rnd k pop) ! 10 = fst (makeOffspring rnd k x)"
    unfolding generation_eq(1) [OF assms(1)] t mapOffspring_Cons
    using l9 by (simp add: nth_append nth_Cons')
  then show "fitness (fst (generation rnd k pop) ! 10) = fitness (?s ! 0) * (0.95 + rnd (k + 8) * 0.1)"
    by (simp add: makeOffspring_simps(3) [OF x] s)
qed

lemma gaPopulation_shape:
  "length (fst (gaPopulation rnd k)) = 20"
  "wf_pop (fst (gaPopulation rnd k))"
  "snd (gaPopulation rnd k) = k + 1080"
  using evolve_inv [of "initPopulation rnd 20 k" rnd 10 "k + 180"]
  by (simp_all add: gaPopulation_def length_initPopulation wf_initPopulation)

lemma gaPopulation_last_child:
  assumes "\<forall>n. 0 < rnd n"
  shows "0 < fitness (fst (gaPopulation rnd k) ! 0)"
    and "fitness (fst (gaPopulation rnd k) ! 10) =
           fitness (fst (gaPopulation rnd k) ! 0) * (0.95 + rnd (k + 998) * 0.1)"
proof -
  let ?p0 = "initPopulation rnd 20 k"
  let ?e = "evolve rnd 9 (k + 180) ?p0"
  have ten: "(10::nat) = Suc 9" by simp
  have inv0: "length ?p0 = 20" "wf_pop ?p0"
    by (simp_all add: length_initPopulation wf_initPopulation)
  have pos0: "pos_pop ?p0" using assms by (rule pos_initPopulation)
  have inv9: "length (fst ?e) = 20" "wf_pop (fst ?e)" "snd ?e = k + 990"
    using evolve_inv [OF inv0, of rnd 9 "k + 180"] by simp_all
  have pos9: "pos_pop (fst ?e)"
    using evolve_positive [OF assms inv0 pos0] .
  have eq: "gaPopulation rnd k = generation rnd (snd ?e) (fst ?e)"
    unfolding gaPopulation_def ten evolve_snoc ..
  have "length (sortByFitness (fst ?e)) = 20"
    using inv9(1) by (simp add: length_sortByFitness)
  then have "sortByFitness (fst ?e) ! 0 \<in> set (sortByFitness (fst ?e))"
    by (intro nth_mem) simp
  moreover have "pos_pop (sortByFitness (fst ?e))"
    using pos9 by (simp add: pos_sortByFitness)
  ultimately have top: "0 < fitness (sortByFitness (fst ?e) ! 0)"
    by (simp add: pos_pop_def)
  show "0 < fitness (fst (gaPopulation rnd k) ! 0)"
    unfolding eq generation_top_and_child(1) [OF inv9(1,2)] using top .
  show "fitness (fst (gaPopulation rnd k) ! 10) =
           fitness (fst (gaPopulation rnd k) ! 0) * (0.95 + rnd (k + 998) * 0.1)"
    unfolding eq generation_top_and_child(1,2) [OF inv9(1,2)] inv9(3)
    by (simp add: add.assoc)
qed

lemma sortByFitness_top:
  assumes "i < length pop"
  shows "fitness (sortByFitness pop ! i) \<le> fitness (sortByFitness pop ! 0)"
proof -
  let ?s = "sortByFitness pop"
  have len: "length ?s = length pop" by (rule length_sortByFitness)
  have "sorted (map (\<lambda>a. - fitness a) ?s)"
    unfolding sortByFitness_def by (rule sorted_sort_key)
  then have "map (\<lambda>a. - fitness a) ?s ! 0 \<le> map (\<lambda>a. - fitness a) ?s ! i"
    using assms len by (intro sorted_nth_mono) simp_all
  moreover have "0 < length ?s" using assms len by (cases pop) simp_all
  ultimately show ?thesis using assms len by (simp add: nth_map)
qed

text \<open>
  What the loop does establish, for every random source: \<open>population[0]\<close> is at least as fit
  as each of the ten survivors, the members at indices 0 to 9.
\<close>

lemma ga_best_among_survivors:
  assumes "i < 10"
  shows "fitness (fst (gaPopulation rnd k) ! i) \<le> fitness (fst (gaPopulation rnd k) ! 0)"
proof -
  let ?p0 = "initPopulation rnd 20 k"
  let ?e = "evolve rnd 9 (k + 180) ?p0"
  have ten: "(10::nat) = Suc 9" by simp
  have inv0: "length ?p0 = 20" "wf_pop ?p0"
    by (simp_all add: length_initPopulation wf_initPopulation)
  have inv9: "length (fst ?e) = 20"
    using evolve_inv [OF inv0, of rnd 9 "k + 180"] by simp
  have eq: "gaPopulation rnd k = generation rnd (snd ?e) (fst ?e)"
    unfolding gaPopulation_def ten evolve_snoc ..
  have nth: "fst (generation rnd (snd ?e) (fst ?e)) ! j = sortByFitness (fst ?e) ! j" if "j < 10" for j
    unfolding generation_eq(1) [OF inv9]
    using that inv9 by (simp add: nth_append length_sortByFitness)
  have "fitness (sortByFitness (fst ?e) ! i) \<le> fitness (sortByFitness (fst ?e) ! 0)"
    using assms inv9 by (intro sortByFitness_top) simp
  then show ?thesis
    unfolding eq using nth [of i] nth [of 0] assms by simp
qed

text \<open>
  C6 at a failing input: every draw of \<open>Math.random()\<close> returns 0.75. The final population has
  20 members; the predictor uses \<open>population[0]\<close>, whose fitness is smaller than that of
  \<open>population[10]\<close>, its own offspring of the last generation (factor
  \<open>0.95 + 0.75 * 0.1 = 41/40\<close>). The loop sorts at the start of each generation only, so the
  offspring of the last generation are never ranked against the survivors.
\<close>

theorem ga_best_not_top:
  "length (fst (gaPopulation (const_rng (3/4)) 0)) = 20 \<and>
   predict (trainGA True [] (const_rng (3/4)) 0 0)
     = gaPredict (fst (gaPopulation (const_rng (3/4)) 0) ! 0) \<and>
   fitness (fst (gaPopulation (const_rng (3/4)) 0) ! 10)
     = fitness (fst (gaPopulation (const_rng (3/4)) 0) ! 0) * (41/40) \<and>
   fitness (fst (gaPopulation (const_rng (3/4)) 0) ! 0)
     < fitness (fst (gaPopulation (const_rng (3/4)) 0) ! 10)"
proof -
  have pos: "\<forall>n. 0 < const_rng (3/4) n" by (simp add: const_rng_def)
  note f = gaPopulation_last_child [OF pos, of 0]
  have c: "fitness (fst (gaPopulation (const_rng (3/4)) 0) ! 10)
     = fitness (fst (gaPopulation (const_rng (3/4)) 0) ! 0) * (41/40)"
    using f(2) by (simp add: const_rng_def)
  have "fitness (fst (gaPopulation (const_rng (3/4)) 0) ! 0) * 1
     < fitness (fst (gaPopulation (const_rng (3/4)) 0) ! 0) * (41/40)"
    using f(1) by (intro mult_strict_left_mono) simp_all
  then show ?thesis
    using gaPopulation_shape(1) [of "const_rng (3/4)" 0] c
    by (simp add: trainGA_fields(1) loadData_real)
qed

section \<open>Material and grade\<close>

lemma gradeOptions_allowed:
  "m \<in> set materialOptions \<Longrightarrow> \<exists>g. gradeOptions m = Some [g]"
  by (auto simp: materialOptions_def gradeOptions_def)

lemma materialOnChange_single:
  "gradeOptions m = Some [g] \<Longrightarrow>
     materialOnChange cb m s = Inr (cb Grade (Str g) (cb Material (Str m) s))"
  by (simp add: materialOnChange_def)

text \<open>
  A name that \<open>gradeOptions\<close> only inherits is not among the options of the select; given
  one, the handler would not throw but issue the grade \<open>undefined\<close>.
\<close>

lemma materialOnChange_inherited:
  "materialOnChange recordCall ''constructor'' [] =
     Inr [(Material, Str ''constructor''), (Grade, Undefined)]"
  by (simp add: materialOnChange_def gradeOptions_def objectPrototypeKeys_def recordCall_def)

text \<open>
  C4. For each of the four materials the select offers, the handler calls
  \<open>onParameterChange('material', m)\<close> and then \<open>onParameterChange('grade', g)\<close>, where \<open>g\<close> is the
  single grade of \<open>m\<close>; with the field-setting \<open>update\<close> as the callback, the resulting values
  have material \<open>m\<close> and grade \<open>g\<close> whatever the grade was before, and every other field is
  unchanged. Titanium gives Ti6Al4V and Aluminium gives Al-6061.
\<close>

theorem material_resets_grade:
  assumes "m \<in> set materialOptions"
  shows "\<exists>g. gradeOptions m = Some [g] \<and>
           materialOnChange recordCall m [] = Inr [(Material, Str m), (Grade, Str g)] \<and>
           (\<forall>ps. \<exists>ps'. materialOnChange update m ps = Inr ps' \<and>
                   ps' Material = Str m \<and> ps' Grade = Str g \<and>
                   (\<forall>k. k \<noteq> Material \<and> k \<noteq> Grade \<longrightarrow> ps' k = ps k)) \<and>
           (m = ''Titanium'' \<longrightarrow> g = ''Ti6Al4V'') \<and>
           (m = ''Aluminium'' \<longrightarrow> g = ''Al-6061'')"
proof -
  from gradeOptions_allowed [OF assms] obtain g where g: "gradeOptions m = Some [g]" ..
  note cb = materialOnChange_single [OF g]
  have t: "m = ''Titanium'' \<longrightarrow> g = ''Ti6Al4V''"
    using g by (auto simp: gradeOptions_def)
  have a: "m = ''Aluminium'' \<longrightarrow> g = ''Al-6061''"
    using g by (auto simp: gradeOptions_def)
  show ?thesis
    using g t a by (auto simp: cb recordCall_def update_def)
qed

theorem material_resets_grade_witness:
  "''Titanium'' \<in> set materialOptions \<and>
   gradeOptions ''Titanium'' = Some [''Ti6Al4V''] \<and>
   materialOnChange recordCall ''Titanium'' [] =
     Inr [(Material, Str ''Titanium''), (Grade, Str ''Ti6Al4V'')]"
proof -
  have h: "''Titanium'' \<in> set materialOptions" by (simp add: materialOptions_def)
  show ?thesis
    using h material_resets_grade [OF h] by auto
qed

section \<open>The training run\<close>

lemma run_Nil: "run [] s = s"
  by (simp add: run_def)

lemma run_Cons: "run (e # es) s = run es (step e s)"
  by (simp add: run_def)

lemma run_snoc: "run (es @ [e]) s = step e (run es s)"
  by (simp add: run_def)

lemma run_replicate_Suc: "run (replicate (Suc k) e) s = step e (run (replicate k e) s)"
  using run_snoc [of "replicate k e" e s] by (simp add: replicate_append_same)

lemma step_inv:
  assumes "even (trainingProgress s)" "trainingProgress s \<le> 100"
    "length (intervals s) \<le> 1" "isTraining s \<longleftrightarrow> intervals s \<noteq> []"
  shows "even (trainingProgress (step e s)) \<and> trainingProgress (step e s) \<le> 100 \<and>
         length (intervals (step e s)) \<le> 1 \<and>
         (isTraining (step e s) \<longleftrightarrow> intervals (step e s) \<noteq> [])"
proof (cases e)
  case (SelectModel m)
  then show ?thesis using assms by simp
next
  case ClickTrain
  then show ?thesis using assms by (simp add: handleTrainModel_def)
next
  case (Tick i)
  show ?thesis
  proof (cases "intervals s")
    case Nil
    then show ?thesis using assms Tick by (simp add: intervalTick_def)
  next
    case (Cons a as)
    with assms(3) have as: "as = []" by simp
    obtain j m where a: "a = (j, m)" by (cases a)
    have lt: "trainingProgress s < 100 \<Longrightarrow> trainingProgress s + 2 \<le> 100"
      using assms(1) by (elim evenE) simp
    show ?thesis
      using assms Tick Cons as a lt by (simp add: intervalTick_def)
  qed
qed

lemma reachable_inv:
  "even (trainingProgress (run es initState)) \<and> trainingProgress (run es initState) \<le> 100 \<and>
   length (intervals (run es initState)) \<le> 1 \<and>
   (isTraining (run es initState) \<longleftrightarrow> intervals (run es initState) \<noteq> [])"
proof (induction es rule: rev_induct)
  case Nil
  then show ?case by (simp add: run_Nil initState_def)
next
  case (snoc e es)
  then show ?case
    unfolding run_snoc by (intro step_inv) simp_all
qed

text \<open>
  C5. A click on the train button while \<open>isTraining\<close> holds leaves the whole state unchanged
  (progress, flag, timers and the calls of \<open>onTrainModel\<close>, hence the results map): the button
  is disabled. In every state reached from the initial one there is at most one running
  timer, and there is one exactly while \<open>isTraining\<close> holds, so no second run starts before the
  first has completed.
\<close>

theorem reentrant_click_noop:
  "(isTraining s \<longrightarrow> step ClickTrain s = s) \<and>
   length (intervals (run es initState)) \<le> 1 \<and>
   (isTraining (run es initState) \<longleftrightarrow> intervals (run es initState) \<noteq> [])"
  using reachable_inv [of es] by simp

theorem reentrant_click_noop_witness:
  "isTraining (run [ClickTrain, Tick 0, Tick 0] initState) \<and>
   trainingProgress (run [ClickTrain, Tick 0, Tick 0] initState) = 4 \<and>
   step ClickTrain (run [ClickTrain, Tick 0, Tick 0] initState)
     = run [ClickTrain, Tick 0, Tick 0] initState"
proof -
  have r: "isTraining (run [ClickTrain, Tick 0, Tick 0] initState)"
    and p: "trainingProgress (run [ClickTrain, Tick 0, Tick 0] initState) = 4"
    by (simp_all add: run_def initState_def handleTrainModel_def intervalTick_def)
  show ?thesis
    using r p reentrant_click_noop [of "run [ClickTrain, Tick 0, Tick 0] initState" "[]"]
    by blast
qed

lemma ticks_advance:
  assumes "intervals s = [(i, m)]" and "trainingProgress s + 2 * k \<le> 100"
  shows "run (replicate k (Tick i)) s = s\<lparr>trainingProgress := trainingProgress s + 2 * k\<rparr>"
  using assms
proof (induction k)
  case 0
  then show ?case by (simp add: run_Nil)
next
  case (Suc k)
  then have "run (replicate k (Tick i)) s = s\<lparr>trainingProgress := trainingProgress s + 2 * k\<rparr>"
    by simp
  then show ?case
    using Suc.prems unfolding run_replicate_Suc by (simp add: intervalTick_def)
qed

lemma tick_completes:
  assumes "intervals s = [(i, m)]" and "trainingProgress s = 100"
  shows "step (Tick i) s = s\<lparr>intervals := [], isTraining := False, trained := trained s @ [m],
           trainingProgress := 100\<rparr>"
  using assms by (simp add: intervalTick_def)

lemma ticks_idle:
  assumes "intervals s = []"
  shows "run (replicate k (Tick i)) s = s"
  using assms
proof (induction k)
  case 0
  then show ?case by (simp add: run_Nil)
next
  case (Suc k)
  then show ?case unfolding run_replicate_Suc by (simp add: intervalTick_def)
qed

lemma run_append: "run (xs @ ys) s = run ys (run xs s)"
  by (simp add: run_def)

lemma run_after_51:
  assumes "intervals s = [(i, m)]" and "trainingProgress s = 0" and "50 < k"
  shows "run (replicate k (Tick i)) s =
           s\<lparr>intervals := [], isTraining := False, trained := trained s @ [m],
             trainingProgress := 100\<rparr>"
proof -
  obtain j where k: "k = 50 + (1 + j)"
    using assms(3) by (metis add.commute add_Suc_right less_iff_Suc_add plus_1_eq_Suc)
  have a: "run (replicate 50 (Tick i)) s = s\<lparr>trainingProgress := 100\<rparr>"
    using ticks_advance [of s i m 50] assms by simp
  have b: "run (replicate 1 (Tick i)) (s\<lparr>trainingProgress := 100\<rparr>) =
      s\<lparr>intervals := [], isTraining := False, trained := trained s @ [m],
             trainingProgress := 100\<rparr>"
    using tick_completes [of "s\<lparr>trainingProgress := 100\<rparr>" i m] assms
    by (simp add: run_Cons run_Nil)
  have c: "run (replicate j (Tick i)) (s\<lparr>intervals := [], isTraining := False,
      trained := trained s @ [m], trainingProgress := 100\<rparr>) =
      s\<lparr>intervals := [], isTraining := False, trained := trained s @ [m],
             trainingProgress := 100\<rparr>"
    by (rule ticks_idle) simp
  show ?thesis
    unfolding k replicate_add run_append a b c ..
qed

text \<open>
  The function \<open>handleTrainModel\<close> itself has no guard: the disabled button is the only one.
\<close>

lemma handleTrainModel_unguarded:
  "handleTrainModel s \<noteq> s"
proof
  assume "handleTrainModel s = s"
  then have "nextInterval (handleTrainModel s) = nextInterval s" by simp
  then show False by (simp add: handleTrainModel_def)
qed

text \<open>
  C8. A run started from an idle state begins at progress 0. After \<open>k \<le> 50\<close> firings of its
  timer the progress is \<open>2 k\<close>, the run is still going and \<open>onTrainModel\<close> has not been called.
  The firing that finds the progress at 100 (the 51st) clears the timer, clears \<open>isTraining\<close>
  and calls \<open>onTrainModel\<close> once with the model selected at the start; later firings change
  nothing, the progress stays at 100, and the next click on the train button sets it back
  to 0. In every reachable state the progress is at most 100.
\<close>

theorem training_run:
  assumes "\<not> isTraining s0" and "intervals s0 = []"
  shows "trainingProgress (step ClickTrain s0) = 0 \<and>
    (\<forall>k\<le>50.
       trainingProgress (run (replicate k (Tick (nextInterval s0))) (step ClickTrain s0)) = 2 * k \<and>
       isTraining (run (replicate k (Tick (nextInterval s0))) (step ClickTrain s0)) \<and>
       trained (run (replicate k (Tick (nextInterval s0))) (step ClickTrain s0)) = trained s0) \<and>
    (\<forall>k>50.
       trainingProgress (run (replicate k (Tick (nextInterval s0))) (step ClickTrain s0)) = 100 \<and>
       \<not> isTraining (run (replicate k (Tick (nextInterval s0))) (step ClickTrain s0)) \<and>
       intervals (run (replicate k (Tick (nextInterval s0))) (step ClickTrain s0)) = [] \<and>
       trained (run (replicate k (Tick (nextInterval s0))) (step ClickTrain s0))
         = trained s0 @ [selectedModel s0] \<and>
       trainingProgress
         (step ClickTrain (run (replicate k (Tick (nextInterval s0))) (step ClickTrain s0))) = 0) \<and>
    trainingProgress (run es initState) \<le> 100"
proof -
  let ?i = "nextInterval s0"
  let ?s1 = "step ClickTrain s0"
  have s1: "?s1 = handleTrainModel s0" using assms(1) by simp
  have iv: "intervals ?s1 = [(?i, selectedModel s0)]"
    using assms by (simp add: handleTrainModel_def)
  have p0: "trainingProgress ?s1 = 0"
    using assms by (simp add: handleTrainModel_def)
  have tr: "trained ?s1 = trained s0" and it: "isTraining ?s1"
    using assms by (simp_all add: handleTrainModel_def)
  have early: "trainingProgress (run (replicate k (Tick ?i)) ?s1) = 2 * k \<and>
       isTraining (run (replicate k (Tick ?i)) ?s1) \<and>
       trained (run (replicate k (Tick ?i)) ?s1) = trained s0" if "k \<le> 50" for k
  proof -
    have "run (replicate k (Tick ?i)) ?s1 = ?s1\<lparr>trainingProgress := trainingProgress ?s1 + 2 * k\<rparr>"
      using iv p0 that by (intro ticks_advance [where m = "selectedModel s0"]) simp_all
    then show ?thesis using p0 tr it by simp
  qed
  have late: "trainingProgress (run (replicate k (Tick ?i)) ?s1) = 100 \<and>
       \<not> isTraining (run (replicate k (Tick ?i)) ?s1) \<and>
       intervals (run (replicate k (Tick ?i)) ?s1) = [] \<and>
       trained (run (replicate k (Tick ?i)) ?s1) = trained s0 @ [selectedModel s0] \<and>
       trainingProgress (step ClickTrain (run (replicate k (Tick ?i)) ?s1)) = 0" if "50 < k" for k
  proof -
    have "run (replicate k (Tick ?i)) ?s1 =
        ?s1\<lparr>intervals := [], isTraining := False, trained := trained ?s1 @ [selectedModel s0],
             trainingProgress := 100\<rparr>"
      using iv p0 that by (rule run_after_51)
    then show ?thesis using tr by (simp add: handleTrainModel_def)
  qed
  show ?thesis
    using p0 early late reachable_inv [of es] by blast
qed

theorem training_run_witness:
  "\<not> isTraining initState \<and> intervals initState = [] \<and>
   trainingProgress (run (replicate 50 (Tick 0)) (step ClickTrain initState)) = 100 \<and>
   isTraining (run (replicate 50 (Tick 0)) (step ClickTrain initState)) \<and>
   trained (run (replicate 50 (Tick 0)) (step ClickTrain initState)) = [] \<and>
   \<not> isTraining (run (replicate 51 (Tick 0)) (step ClickTrain initState)) \<and>
   trained (run (replicate 51 (Tick 0)) (step ClickTrain initState)) = [''SVM'']"
proof -
  have a: "\<not> isTraining initState" and b: "intervals initState = []"
    and c: "nextInterval initState = 0" and d: "trained initState = []"
    and e: "selectedModel initState = ''SVM''"
    by (simp_all add: initState_def)
  have f: "(50::nat) \<le> 50" and g: "(50::nat) < 51" by simp_all
  show ?thesis
    using a b training_run [OF a b, of "[]"] f g unfolding c d e
    by (metis append_Nil mult_2 numeral_Bit0)
qed

section \<open>The metrics in doubles\<close>

lemma rne_of_int: "rne (of_int m) = m"
  by (simp add: rne_def)

lemma rne_cases: "rne q = \<lfloor>q\<rfloor> \<or> rne q = \<lfloor>q\<rfloor> + 1"
  by (simp add: rne_def Let_def)

lemma rne_ge_floor: "\<lfloor>q\<rfloor> \<le> rne q"
  using rne_cases [of q] by auto

lemma rne_ge: "of_int m \<le> q \<Longrightarrow> m \<le> rne q"
  using rne_ge_floor [of q] by (meson le_floor_iff order_trans)

lemma rne_le:
  assumes "q \<le> of_int m"
  shows "rne q \<le> m"
proof (cases "q = of_int \<lfloor>q\<rfloor>")
  case True
  have "rne (of_int \<lfloor>q\<rfloor> :: real) = \<lfloor>q\<rfloor>" by (rule rne_of_int)
  with True have "rne q = \<lfloor>q\<rfloor>" by simp
  moreover have "\<lfloor>q\<rfloor> \<le> m" using assms by (simp add: floor_le_iff)
  ultimately show ?thesis by simp
next
  case False
  then have "of_int \<lfloor>q\<rfloor> < q" using of_int_floor_le [of q] by linarith
  with assms have "of_int \<lfloor>q\<rfloor> < (of_int m :: real)" by simp
  then have "\<lfloor>q\<rfloor> < m" by simp
  with rne_cases [of q] show ?thesis by auto
qed

lemma rne_mono:
  assumes "q \<le> q'"
  shows "rne q \<le> rne q'"
proof (cases "\<lfloor>q\<rfloor> = \<lfloor>q'\<rfloor>")
  case True
  have "q - of_int \<lfloor>q\<rfloor> \<le> q' - of_int \<lfloor>q'\<rfloor>" using assms True by simp
  then show ?thesis
    unfolding rne_def Let_def True by auto
next
  case False
  have "\<lfloor>q\<rfloor> \<le> \<lfloor>q'\<rfloor>" using assms by (rule floor_mono)
  with False have "\<lfloor>q\<rfloor> + 1 \<le> \<lfloor>q'\<rfloor>" by simp
  with rne_cases [of q] rne_ge_floor [of q'] show ?thesis by auto
qed

lemma fl_0: "fl 0 = 0"
  by (simp add: fl_def)

lemma fl_binade:
  assumes "0 < x" and "2 powr of_int e \<le> x" and "x < 2 powr (of_int e + 1)"
  shows "fl x = of_int (rne (x / 2 powr (of_int e - 52))) * 2 powr (of_int e - 52)"
proof -
  have "\<lfloor>log 2 x\<rfloor> = e"
    using assms by (simp add: floor_log_eq_powr_iff)
  then show ?thesis
    using assms(1) by (simp add: fl_def Let_def)
qed

lemma binade_exists:
  assumes "0 < x"
  shows "2 powr of_int \<lfloor>log 2 x\<rfloor> \<le> x \<and> x < 2 powr (of_int \<lfloor>log 2 x\<rfloor> + 1)"
  using floor_log_eq_powr_iff [of x 2 "\<lfloor>log 2 x\<rfloor>"] assms by simp

lemma powr_split: "(2::real) powr (of_int e) = 2 ^ 52 * 2 powr (of_int e - 52)"
proof -
  have "(2::real) powr (of_int e) = 2 powr (52 + (of_int e - 52))" by simp
  also have "\<dots> = 2 powr 52 * 2 powr (of_int e - 52)" by (rule powr_add)
  finally show ?thesis by simp
qed

lemma powr_split_Suc: "(2::real) powr (of_int e + 1) = 2 ^ 53 * 2 powr (of_int e - 52)"
proof -
  have "(2::real) powr (of_int e + 1) = 2 powr (53 + (of_int e - 52))" by (simp add: add.commute)
  also have "\<dots> = 2 powr 53 * 2 powr (of_int e - 52)" by (rule powr_add)
  finally show ?thesis by simp
qed

lemma fl_range:
  assumes "0 < x" and "2 powr of_int e \<le> x" and "x < 2 powr (of_int e + 1)"
  shows "2 powr of_int e \<le> fl x" and "fl x \<le> 2 powr (of_int e + 1)"
proof -
  let ?u = "(2::real) powr (of_int e - 52)"
  have u: "0 < ?u" by simp
  have lo: "of_int (2 ^ 52) \<le> x / ?u"
    using assms(2) u unfolding powr_split [of e] by (simp add: pos_le_divide_eq)
  have hi: "x / ?u \<le> of_int (2 ^ 53)"
    using assms(3) u unfolding powr_split_Suc [of e] by (simp add: pos_divide_le_eq)
  have "2 ^ 52 \<le> rne (x / ?u)" using lo by (rule rne_ge)
  then have "(2 ^ 52 :: real) \<le> of_int (rne (x / ?u))"
    by (metis of_int_le_iff of_int_numeral of_int_power)
  then have "2 ^ 52 * ?u \<le> of_int (rne (x / ?u)) * ?u"
    using u by (simp add: mult_right_mono)
  then show "2 powr of_int e \<le> fl x"
    unfolding fl_binade [OF assms] powr_split [of e] .
  have "rne (x / ?u) \<le> 2 ^ 53" using hi by (rule rne_le)
  then have "of_int (rne (x / ?u)) \<le> (2 ^ 53 :: real)"
    by (metis of_int_le_iff of_int_numeral of_int_power)
  then have "of_int (rne (x / ?u)) * ?u \<le> 2 ^ 53 * ?u"
    using u by (simp add: mult_right_mono)
  then show "fl x \<le> 2 powr (of_int e + 1)"
    unfolding fl_binade [OF assms] powr_split_Suc [of e] .
qed

lemma fl_nonneg: "0 \<le> x \<Longrightarrow> 0 \<le> fl x"
proof (cases "x = 0")
  case True
  then show ?thesis by (simp add: fl_0)
next
  case False
  assume "0 \<le> x"
  with False have x: "0 < x" by simp
  from binade_exists [OF x] fl_range(1) [OF x] have "2 powr of_int \<lfloor>log 2 x\<rfloor> \<le> fl x"
    by blast
  moreover have "0 < (2::real) powr of_int \<lfloor>log 2 x\<rfloor>" by simp
  ultimately show ?thesis by linarith
qed

lemma fl_mono:
  assumes "0 \<le> x" and "x \<le> y"
  shows "fl x \<le> fl y"
proof (cases "x = 0")
  case True
  then show ?thesis using assms fl_nonneg [of y] by (simp add: fl_0)
next
  case False
  with assms have x: "0 < x" and y: "0 < y" by simp_all
  let ?ex = "\<lfloor>log 2 x\<rfloor>" and ?ey = "\<lfloor>log 2 y\<rfloor>"
  note bx = binade_exists [OF x] and byy = binade_exists [OF y]
  have le: "?ex \<le> ?ey"
    using x y assms(2) by (intro floor_mono) simp
  show ?thesis
  proof (cases "?ex = ?ey")
    case True
    let ?u = "(2::real) powr (of_int ?ex - 52)"
    have u: "0 < ?u" by simp
    have fx: "fl x = of_int (rne (x / ?u)) * ?u"
      using bx by (intro fl_binade [OF x]) simp_all
    have fy: "fl y = of_int (rne (y / ?u)) * ?u"
      using byy unfolding True [symmetric] by (intro fl_binade [OF y]) simp_all
    have "x / ?u \<le> y / ?u" using assms(2) u by (simp add: divide_right_mono)
    then have "rne (x / ?u) \<le> rne (y / ?u)" by (rule rne_mono)
    then have "(of_int (rne (x / ?u)) :: real) \<le> of_int (rne (y / ?u))" by simp
    then show ?thesis
      unfolding fx fy using u by (simp add: mult_right_mono)
  next
    case False
    with le have "?ex + 1 \<le> ?ey" by simp
    then have "(of_int ?ex + 1 :: real) \<le> of_int ?ey"
      by (metis of_int_1 of_int_add of_int_le_iff)
    then have "(2::real) powr (of_int ?ex + 1) \<le> 2 powr of_int ?ey"
      by (simp add: powr_mono)
    moreover have "fl x \<le> 2 powr (of_int ?ex + 1)"
      using bx by (intro fl_range(2) [OF x]) simp_all
    moreover have "2 powr of_int ?ey \<le> fl y"
      using byy by (intro fl_range(1) [OF y]) simp_all
    ultimately show ?thesis by linarith
  qed
qed

text \<open>Evaluation of \<open>fl\<close> at a number whose exponent is known.\<close>

lemma fl_scaled:
  fixes p :: nat
  assumes "2 ^ 52 \<le> x * 2 ^ p" and "x * 2 ^ p < 2 ^ 53"
  shows "fl x = of_int (rne (x * 2 ^ p)) / 2 ^ p"
proof -
  have pos: "0 < x"
  proof (rule ccontr)
    assume "\<not> 0 < x"
    then have "x * 2 ^ p \<le> 0" by (simp add: mult_le_0_iff)
    with assms(1) show False by (simp add: not_le [symmetric])
  qed
  let ?e = "52 - int p"
  have u: "(2::real) powr (of_int ?e - 52) = 1 / 2 ^ p"
    by (simp add: powr_minus powr_realpow inverse_eq_divide)
  have a: "2 powr of_int ?e \<le> x"
    unfolding powr_split [of ?e] u using assms(1) by (simp add: pos_divide_le_eq)
  have b: "x < 2 powr (of_int ?e + 1)"
    unfolding powr_split_Suc [of ?e] u using assms(2) by (simp add: pos_less_divide_eq)
  show ?thesis
    unfolding fl_binade [OF pos a b] u by simp
qed

lemma fl_scaled_eq:
  fixes p :: nat
  assumes "2 ^ 52 \<le> x * 2 ^ p" and "x * 2 ^ p < 2 ^ 53" and "rne (x * 2 ^ p) = m"
  shows "fl x = of_int m / 2 ^ p"
  using fl_scaled [OF assms(1,2)] assms(3) by simp

lemma fl_fl:
  assumes "0 \<le> x"
  shows "fl (fl x) = fl x"
proof (cases "x = 0")
  case True
  then show ?thesis by (simp add: fl_0)
next
  case False
  with assms have x: "0 < x" by simp
  let ?e = "\<lfloor>log 2 x\<rfloor>"
  let ?u = "(2::real) powr (of_int ?e - 52)"
  let ?m = "rne (x / ?u)"
  have u: "0 < ?u" by simp
  note b = binade_exists [OF x]
  have b1: "2 powr of_int ?e \<le> x" and b2: "x < 2 powr (of_int ?e + 1)"
    using b by simp_all
  have fx: "fl x = of_int ?m * ?u" by (rule fl_binade [OF x b1 b2])
  note r = fl_range [OF x b1 b2]
  have pos: "0 < fl x"
  proof -
    have "0 < (2::real) powr of_int ?e" by simp
    with r(1) show ?thesis by linarith
  qed
  show ?thesis
  proof (cases "fl x < 2 powr (of_int ?e + 1)")
    case True
    have "fl (fl x) = of_int (rne (fl x / ?u)) * ?u"
      by (rule fl_binade [OF pos r(1) True])
    also have "fl x / ?u = of_int ?m" unfolding fx using u by simp
    also have "rne (of_int ?m :: real) = ?m" by (rule rne_of_int)
    finally show ?thesis unfolding fx [symmetric] .
  next
    case False
    with r(2) have eq: "fl x = 2 powr (of_int (?e + 1))" by simp
    let ?v = "(2::real) powr (of_int (?e + 1) - 52)"
    have "fl (2 powr (of_int (?e + 1))) = of_int (rne (2 powr (of_int (?e + 1)) / ?v)) * ?v"
      by (rule fl_binade) (simp_all add: powr_add)
    also have "2 powr (of_int (?e + 1)) / ?v = of_int (2 ^ 52)"
      unfolding powr_split [of "?e + 1"] by simp
    also have "rne (of_int (2 ^ 52) :: real) = 2 ^ 52" by (rule rne_of_int)
    also have "of_int (2 ^ 52) * ?v = 2 powr (of_int (?e + 1))"
      unfolding powr_split [of "?e + 1"] by simp
    finally show ?thesis unfolding eq .
  qed
qed

lemma lit_nonneg: "0 \<le> q \<Longrightarrow> 0 \<le> lit q"
  unfolding lit_def by (rule fl_nonneg)

lemma fl_lit: "0 \<le> q \<Longrightarrow> fl (lit q) = lit q"
  unfolding lit_def by (rule fl_fl)

text \<open>A metric lies between the double of its lower literal and the rounded sum of the two
  literals, both ends included.\<close>

lemma metric_range:
  assumes d: "0 \<le> d" "d < 1" and lo: "0 \<le> lo" and w: "0 \<le> w"
  shows "lit lo \<le> metric lo w d" and "metric lo w d \<le> fl (lit lo + lit w)"
proof -
  have w0: "0 \<le> lit w" using w by (rule lit_nonneg)
  have l0: "0 \<le> lit lo" using lo by (rule lit_nonneg)
  have p0: "0 \<le> d * lit w" using d(1) w0 by simp
  have p1: "d * lit w \<le> lit w" using d w0 by (simp add: mult_left_le_one_le)
  have f0: "0 \<le> fl (d * lit w)" using p0 by (rule fl_nonneg)
  have "fl (d * lit w) \<le> fl (lit w)" using p0 p1 by (rule fl_mono)
  then have f1: "fl (d * lit w) \<le> lit w" using w by (simp add: fl_lit)
  have "fl (lit lo) \<le> fl (lit lo + fl (d * lit w))"
    using l0 f0 by (intro fl_mono) simp_all
  then show "lit lo \<le> metric lo w d"
    using lo by (simp add: fl_lit metric_def)
  have "fl (lit lo + fl (d * lit w)) \<le> fl (lit lo + lit w)"
    using l0 f0 f1 by (intro fl_mono) simp_all
  then show "metric lo w d \<le> fl (lit lo + lit w)"
    by (simp add: metric_def)
qed

lemma metric_mono:
  assumes "0 \<le> d" and "d \<le> d'" and "0 \<le> lo" and "0 \<le> w"
  shows "metric lo w d \<le> metric lo w d'"
proof -
  have w0: "0 \<le> lit w" using assms(4) by (rule lit_nonneg)
  have l0: "0 \<le> lit lo" using assms(3) by (rule lit_nonneg)
  have p0: "0 \<le> d * lit w" using assms(1) w0 by simp
  have "d * lit w \<le> d' * lit w" using assms(2) w0 by (rule mult_right_mono)
  with p0 have "fl (d * lit w) \<le> fl (d' * lit w)" by (rule fl_mono)
  moreover have "0 \<le> fl (d * lit w)" using p0 by (rule fl_nonneg)
  ultimately have "fl (lit lo + fl (d * lit w)) \<le> fl (lit lo + fl (d' * lit w))"
    using l0 by (intro fl_mono) simp_all
  then show ?thesis by (simp add: metric_def)
qed

subsection \<open>The literals of the metric ranges\<close>

lemma lit_87: "lit 0.87 = 7836263351624663 / 2 ^ 53"
proof -
  have "fl 0.87 = of_int 7836263351624663 / 2 ^ 53"
    by (rule fl_scaled_eq) (simp_all add: rne_def Let_def)
  then show ?thesis by (simp add: lit_def)
qed

lemma lit_08: "lit 0.08 = 5764607523034235 / 2 ^ 56"
proof -
  have "fl 0.08 = of_int 5764607523034235 / 2 ^ 56"
    by (rule fl_scaled_eq) (simp_all add: rne_def Let_def)
  then show ?thesis by (simp add: lit_def)
qed

lemma lit_95: "lit 0.95 = 8556839292003942 / 2 ^ 53"
proof -
  have "fl 0.95 = of_int 8556839292003942 / 2 ^ 53"
    by (rule fl_scaled_eq) (simp_all add: rne_def Let_def)
  then show ?thesis by (simp add: lit_def)
qed

lemma lit_12: "lit 0.12 = 8646911284551352 / 2 ^ 56"
proof -
  have "fl 0.12 = of_int 8646911284551352 / 2 ^ 56"
    by (rule fl_scaled_eq) (simp_all add: rne_def Let_def)
  then show ?thesis by (simp add: lit_def)
qed

lemma lit_20: "lit 0.20 = 7205759403792794 / 2 ^ 55"
proof -
  have "fl 0.20 = of_int 7205759403792794 / 2 ^ 55"
    by (rule fl_scaled_eq) (simp_all add: rne_def Let_def)
  then show ?thesis by (simp add: lit_def)
qed

lemma lit_91: "lit 0.91 = 8196551321814303 / 2 ^ 53"
proof -
  have "fl 0.91 = of_int 8196551321814303 / 2 ^ 53"
    by (rule fl_scaled_eq) (simp_all add: rne_def Let_def)
  then show ?thesis by (simp add: lit_def)
qed

lemma lit_06: "lit 0.06 = 8646911284551352 / 2 ^ 57"
proof -
  have "fl 0.06 = of_int 8646911284551352 / 2 ^ 57"
    by (rule fl_scaled_eq) (simp_all add: rne_def Let_def)
  then show ?thesis by (simp add: lit_def)
qed

lemma lit_97: "lit 0.97 = 8736983277098762 / 2 ^ 53"
proof -
  have "fl 0.97 = of_int 8736983277098762 / 2 ^ 53"
    by (rule fl_scaled_eq) (simp_all add: rne_def Let_def)
  then show ?thesis by (simp add: lit_def)
qed

lemma lit_09: "lit 0.09 = 6485183463413514 / 2 ^ 56"
proof -
  have "fl 0.09 = of_int 6485183463413514 / 2 ^ 56"
    by (rule fl_scaled_eq) (simp_all add: rne_def Let_def)
  then show ?thesis by (simp add: lit_def)
qed

lemma lit_15: "lit 0.15 = 5404319552844595 / 2 ^ 55"
proof -
  have "fl 0.15 = of_int 5404319552844595 / 2 ^ 55"
    by (rule fl_scaled_eq) (simp_all add: rne_def Let_def)
  then show ?thesis by (simp add: lit_def)
qed

lemma lit_94: "lit 0.94 = 8466767299456532 / 2 ^ 53"
proof -
  have "fl 0.94 = of_int 8466767299456532 / 2 ^ 53"
    by (rule fl_scaled_eq) (simp_all add: rne_def Let_def)
  then show ?thesis by (simp add: lit_def)
qed

lemma lit_04: "lit 0.04 = 5764607523034235 / 2 ^ 57"
proof -
  have "fl 0.04 = of_int 5764607523034235 / 2 ^ 57"
    by (rule fl_scaled_eq) (simp_all add: rne_def Let_def)
  then show ?thesis by (simp add: lit_def)
qed

lemma lit_98: "lit 0.98 = 8827055269646172 / 2 ^ 53"
proof -
  have "fl 0.98 = of_int 8827055269646172 / 2 ^ 53"
    by (rule fl_scaled_eq) (simp_all add: rne_def Let_def)
  then show ?thesis by (simp add: lit_def)
qed

lemma lit_10: "lit 0.10 = 7205759403792794 / 2 ^ 56"
proof -
  have "fl 0.10 = of_int 7205759403792794 / 2 ^ 56"
    by (rule fl_scaled_eq) (simp_all add: rne_def Let_def)
  then show ?thesis by (simp add: lit_def)
qed

lemma lit_89: "lit 0.89 = 8016407336719483 / 2 ^ 53"
proof -
  have "fl 0.89 = of_int 8016407336719483 / 2 ^ 53"
    by (rule fl_scaled_eq) (simp_all add: rne_def Let_def)
  then show ?thesis by (simp add: lit_def)
qed

lemma lit_07: "lit 0.07 = 5044031582654956 / 2 ^ 56"
proof -
  have "fl 0.07 = of_int 5044031582654956 / 2 ^ 56"
    by (rule fl_scaled_eq) (simp_all add: rne_def Let_def)
  then show ?thesis by (simp add: lit_def)
qed

lemma lit_96: "lit 0.96 = 8646911284551352 / 2 ^ 53"
proof -
  have "fl 0.96 = of_int 8646911284551352 / 2 ^ 53"
    by (rule fl_scaled_eq) (simp_all add: rne_def Let_def)
  then show ?thesis by (simp add: lit_def)
qed

lemma lit_17: "lit 0.17 = 6124895493223875 / 2 ^ 55"
proof -
  have "fl 0.17 = of_int 6124895493223875 / 2 ^ 55"
    by (rule fl_scaled_eq) (simp_all add: rne_def Let_def)
  then show ?thesis by (simp add: lit_def)
qed

lemma sum_87_08: "fl (lit 0.87 + lit 0.08) = lit 0.95"
  unfolding lit_87 lit_08 lit_95
proof -
  have "fl (7836263351624663 / 2 ^ 53 + 5764607523034235 / 2 ^ 56) = of_int 8556839292003942 / 2 ^ 53"
    by (rule fl_scaled_eq) (simp_all add: rne_def Let_def)
  then show "fl (7836263351624663 / 2 ^ 53 + 5764607523034235 / 2 ^ 56) = 8556839292003942 / 2 ^ 53" by simp
qed

lemma sum_12_08: "fl (lit 0.12 + lit 0.08) = lit 0.20"
  unfolding lit_12 lit_08 lit_20
proof -
  have "fl (8646911284551352 / 2 ^ 56 + 5764607523034235 / 2 ^ 56) = of_int 7205759403792794 / 2 ^ 55"
    by (rule fl_scaled_eq) (simp_all add: rne_def Let_def)
  then show "fl (8646911284551352 / 2 ^ 56 + 5764607523034235 / 2 ^ 56) = 7205759403792794 / 2 ^ 55" by simp
qed

lemma sum_91_06: "fl (lit 0.91 + lit 0.06) = lit 0.97"
  unfolding lit_91 lit_06 lit_97
proof -
  have "fl (8196551321814303 / 2 ^ 53 + 8646911284551352 / 2 ^ 57) = of_int 8736983277098762 / 2 ^ 53"
    by (rule fl_scaled_eq) (simp_all add: rne_def Let_def)
  then show "fl (8196551321814303 / 2 ^ 53 + 8646911284551352 / 2 ^ 57) = 8736983277098762 / 2 ^ 53" by simp
qed

lemma sum_09_06: "fl (lit 0.09 + lit 0.06) = lit 0.15"
  unfolding lit_09 lit_06 lit_15
proof -
  have "fl (6485183463413514 / 2 ^ 56 + 8646911284551352 / 2 ^ 57) = of_int 5404319552844595 / 2 ^ 55"
    by (rule fl_scaled_eq) (simp_all add: rne_def Let_def)
  then show "fl (6485183463413514 / 2 ^ 56 + 8646911284551352 / 2 ^ 57) = 5404319552844595 / 2 ^ 55" by simp
qed

lemma sum_94_04: "fl (lit 0.94 + lit 0.04) = lit 0.98"
  unfolding lit_94 lit_04 lit_98
proof -
  have "fl (8466767299456532 / 2 ^ 53 + 5764607523034235 / 2 ^ 57) = of_int 8827055269646172 / 2 ^ 53"
    by (rule fl_scaled_eq) (simp_all add: rne_def Let_def)
  then show "fl (8466767299456532 / 2 ^ 53 + 5764607523034235 / 2 ^ 57) = 8827055269646172 / 2 ^ 53" by simp
qed

lemma sum_06_04: "fl (lit 0.06 + lit 0.04) = lit 0.10"
  unfolding lit_06 lit_04 lit_10
proof -
  have "fl (8646911284551352 / 2 ^ 57 + 5764607523034235 / 2 ^ 57) = of_int 7205759403792794 / 2 ^ 56"
    by (rule fl_scaled_eq) (simp_all add: rne_def Let_def)
  then show "fl (8646911284551352 / 2 ^ 57 + 5764607523034235 / 2 ^ 57) = 7205759403792794 / 2 ^ 56" by simp
qed

lemma sum_89_07: "fl (lit 0.89 + lit 0.07) = lit 0.96"
  unfolding lit_89 lit_07 lit_96
proof -
  have "fl (8016407336719483 / 2 ^ 53 + 5044031582654956 / 2 ^ 56) = of_int 8646911284551352 / 2 ^ 53"
    by (rule fl_scaled_eq) (simp_all add: rne_def Let_def)
  then show "fl (8016407336719483 / 2 ^ 53 + 5044031582654956 / 2 ^ 56) = 8646911284551352 / 2 ^ 53" by simp
qed

lemma sum_10_07: "fl (lit 0.10 + lit 0.07) = lit 0.17"
  unfolding lit_10 lit_07 lit_17
proof -
  have "fl (7205759403792794 / 2 ^ 56 + 5044031582654956 / 2 ^ 56) = of_int 6124895493223875 / 2 ^ 55"
    by (rule fl_scaled_eq) (simp_all add: rne_def Let_def)
  then show "fl (7205759403792794 / 2 ^ 56 + 5044031582654956 / 2 ^ 56) = 6124895493223875 / 2 ^ 55" by simp
qed

subsection \<open>The metrics at the largest draws\<close>

text \<open>\<open>Math.random()\<close> returns a double below 1; the largest one is \<open>1 - 1 / 2 ^ 53\<close>.\<close>

lemma accuracy_SVM_top: "metric 0.87 0.08 (1 - 1 / 2 ^ 52) = 8556839292003942 / 2 ^ 53"
  unfolding metric_def lit_87 lit_08
proof -
  have "fl ((1 - 1 / 2 ^ 52) * (5764607523034235 / 2 ^ 56)) = of_int 5764607523034234 / 2 ^ 56"
    by (rule fl_scaled_eq) (simp_all add: rne_def Let_def)
  then have a: "fl ((1 - 1 / 2 ^ 52) * (5764607523034235 / 2 ^ 56)) = 5764607523034234 / 2 ^ 56"
    by simp
  have "fl (7836263351624663 / 2 ^ 53 + 5764607523034234 / 2 ^ 56) = of_int 8556839292003942 / 2 ^ 53"
    by (rule fl_scaled_eq) (simp_all add: rne_def Let_def)
  then have b: "fl (7836263351624663 / 2 ^ 53 + 5764607523034234 / 2 ^ 56) = 8556839292003942 / 2 ^ 53"
    by simp
  show "fl (7836263351624663 / 2 ^ 53 + fl ((1 - 1 / 2 ^ 52) * (5764607523034235 / 2 ^ 56))) = 8556839292003942 / 2 ^ 53"
    unfolding a by (rule b)
qed

lemma accuracy_SVM_reaches: "metric 0.87 0.08 (1 - 1 / 2 ^ 52) = lit 0.95"
  unfolding accuracy_SVM_top lit_95 by (rule refl)

lemma accuracy_ANN_top: "metric 0.91 0.06 (1 - 1 / 2 ^ 52) = 8736983277098762 / 2 ^ 53"
  unfolding metric_def lit_91 lit_06
proof -
  have "fl ((1 - 1 / 2 ^ 52) * (8646911284551352 / 2 ^ 57)) = of_int 8646911284551350 / 2 ^ 57"
    by (rule fl_scaled_eq) (simp_all add: rne_def Let_def)
  then have a: "fl ((1 - 1 / 2 ^ 52) * (8646911284551352 / 2 ^ 57)) = 8646911284551350 / 2 ^ 57"
    by simp
  have "fl (8196551321814303 / 2 ^ 53 + 8646911284551350 / 2 ^ 57) = of_int 8736983277098762 / 2 ^ 53"
    by (rule fl_scaled_eq) (simp_all add: rne_def Let_def)
  then have b: "fl (8196551321814303 / 2 ^ 53 + 8646911284551350 / 2 ^ 57) = 8736983277098762 / 2 ^ 53"
    by simp
  show "fl (8196551321814303 / 2 ^ 53 + fl ((1 - 1 / 2 ^ 52) * (8646911284551352 / 2 ^ 57))) = 8736983277098762 / 2 ^ 53"
    unfolding a by (rule b)
qed

lemma accuracy_ANN_reaches: "metric 0.91 0.06 (1 - 1 / 2 ^ 52) = lit 0.97"
  unfolding accuracy_ANN_top lit_97 by (rule refl)

lemma accuracy_ELM_top: "metric 0.94 0.04 (1 - 1 / 2 ^ 52) = 8827055269646172 / 2 ^ 53"
  unfolding metric_def lit_94 lit_04
proof -
  have "fl ((1 - 1 / 2 ^ 52) * (5764607523034235 / 2 ^ 57)) = of_int 5764607523034234 / 2 ^ 57"
    by (rule fl_scaled_eq) (simp_all add: rne_def Let_def)
  then have a: "fl ((1 - 1 / 2 ^ 52) * (5764607523034235 / 2 ^ 57)) = 5764607523034234 / 2 ^ 57"
    by simp
  have "fl (8466767299456532 / 2 ^ 53 + 5764607523034234 / 2 ^ 57) = of_int 8827055269646172 / 2 ^ 53"
    by (rule fl_scaled_eq) (simp_all add: rne_def Let_def)
  then have b: "fl (8466767299456532 / 2 ^ 53 + 5764607523034234 / 2 ^ 57) = 8827055269646172 / 2 ^ 53"
    by simp
  show "fl (8466767299456532 / 2 ^ 53 + fl ((1 - 1 / 2 ^ 52) * (5764607523034235 / 2 ^ 57))) = 8827055269646172 / 2 ^ 53"
    unfolding a by (rule b)
qed

lemma accuracy_ELM_reaches: "metric 0.94 0.04 (1 - 1 / 2 ^ 52) = lit 0.98"
  unfolding accuracy_ELM_top lit_98 by (rule refl)

lemma accuracy_GA_top: "metric 0.89 0.07 (1 - 1 / 2 ^ 52) = 8646911284551352 / 2 ^ 53"
  unfolding metric_def lit_89 lit_07
proof -
  have "fl ((1 - 1 / 2 ^ 52) * (5044031582654956 / 2 ^ 56)) = of_int 5044031582654955 / 2 ^ 56"
    by (rule fl_scaled_eq) (simp_all add: rne_def Let_def)
  then have a: "fl ((1 - 1 / 2 ^ 52) * (5044031582654956 / 2 ^ 56)) = 5044031582654955 / 2 ^ 56"
    by simp
  have "fl (8016407336719483 / 2 ^ 53 + 5044031582654955 / 2 ^ 56) = of_int 8646911284551352 / 2 ^ 53"
    by (rule fl_scaled_eq) (simp_all add: rne_def Let_def)
  then have b: "fl (8016407336719483 / 2 ^ 53 + 5044031582654955 / 2 ^ 56) = 8646911284551352 / 2 ^ 53"
    by simp
  show "fl (8016407336719483 / 2 ^ 53 + fl ((1 - 1 / 2 ^ 52) * (5044031582654956 / 2 ^ 56))) = 8646911284551352 / 2 ^ 53"
    unfolding a by (rule b)
qed

lemma accuracy_GA_reaches: "metric 0.89 0.07 (1 - 1 / 2 ^ 52) = lit 0.96"
  unfolding accuracy_GA_top lit_96 by (rule refl)

lemma rmse_SVM_last: "metric 0.12 0.08 (1 - 1 / 2 ^ 53) = 7205759403792793 / 2 ^ 55"
  unfolding metric_def lit_12 lit_08
proof -
  have "fl ((1 - 1 / 2 ^ 53) * (5764607523034235 / 2 ^ 56)) = of_int 5764607523034234 / 2 ^ 56"
    by (rule fl_scaled_eq) (simp_all add: rne_def Let_def)
  then have a: "fl ((1 - 1 / 2 ^ 53) * (5764607523034235 / 2 ^ 56)) = 5764607523034234 / 2 ^ 56"
    by simp
  have "fl (8646911284551352 / 2 ^ 56 + 5764607523034234 / 2 ^ 56) = of_int 7205759403792793 / 2 ^ 55"
    by (rule fl_scaled_eq) (simp_all add: rne_def Let_def)
  then have b: "fl (8646911284551352 / 2 ^ 56 + 5764607523034234 / 2 ^ 56) = 7205759403792793 / 2 ^ 55"
    by simp
  show "fl (8646911284551352 / 2 ^ 56 + fl ((1 - 1 / 2 ^ 53) * (5764607523034235 / 2 ^ 56))) = 7205759403792793 / 2 ^ 55"
    unfolding a by (rule b)
qed

lemma rmse_SVM_below:
  assumes "0 \<le> d" and "d \<le> 1 - 1 / 2 ^ 53"
  shows "metric 0.12 0.08 d < lit 0.20"
proof -
  have "metric 0.12 0.08 d \<le> metric 0.12 0.08 (1 - 1 / 2 ^ 53)"
    using assms by (intro metric_mono) simp_all
  also have "\<dots> = 7205759403792793 / 2 ^ 55" by (rule rmse_SVM_last)
  also have "\<dots> < lit 0.20" unfolding lit_20 by simp
  finally show ?thesis .
qed

lemma rmse_ANN_last: "metric 0.09 0.06 (1 - 1 / 2 ^ 53) = 5404319552844595 / 2 ^ 55"
  unfolding metric_def lit_09 lit_06
proof -
  have "fl ((1 - 1 / 2 ^ 53) * (8646911284551352 / 2 ^ 57)) = of_int 8646911284551351 / 2 ^ 57"
    by (rule fl_scaled_eq) (simp_all add: rne_def Let_def)
  then have a: "fl ((1 - 1 / 2 ^ 53) * (8646911284551352 / 2 ^ 57)) = 8646911284551351 / 2 ^ 57"
    by simp
  have "fl (6485183463413514 / 2 ^ 56 + 8646911284551351 / 2 ^ 57) = of_int 5404319552844595 / 2 ^ 55"
    by (rule fl_scaled_eq) (simp_all add: rne_def Let_def)
  then have b: "fl (6485183463413514 / 2 ^ 56 + 8646911284551351 / 2 ^ 57) = 5404319552844595 / 2 ^ 55"
    by simp
  show "fl (6485183463413514 / 2 ^ 56 + fl ((1 - 1 / 2 ^ 53) * (8646911284551352 / 2 ^ 57))) = 5404319552844595 / 2 ^ 55"
    unfolding a by (rule b)
qed

lemma rmse_ANN_reaches: "metric 0.09 0.06 (1 - 1 / 2 ^ 53) = lit 0.15"
  unfolding rmse_ANN_last lit_15 by (rule refl)

lemma rmse_ELM_last: "metric 0.06 0.04 (1 - 1 / 2 ^ 53) = 7205759403792793 / 2 ^ 56"
  unfolding metric_def lit_06 lit_04
proof -
  have "fl ((1 - 1 / 2 ^ 53) * (5764607523034235 / 2 ^ 57)) = of_int 5764607523034234 / 2 ^ 57"
    by (rule fl_scaled_eq) (simp_all add: rne_def Let_def)
  then have a: "fl ((1 - 1 / 2 ^ 53) * (5764607523034235 / 2 ^ 57)) = 5764607523034234 / 2 ^ 57"
    by simp
  have "fl (8646911284551352 / 2 ^ 57 + 5764607523034234 / 2 ^ 57) = of_int 7205759403792793 / 2 ^ 56"
    by (rule fl_scaled_eq) (simp_all add: rne_def Let_def)
  then have b: "fl (8646911284551352 / 2 ^ 57 + 5764607523034234 / 2 ^ 57) = 7205759403792793 / 2 ^ 56"
    by simp
  show "fl (8646911284551352 / 2 ^ 57 + fl ((1 - 1 / 2 ^ 53) * (5764607523034235 / 2 ^ 57))) = 7205759403792793 / 2 ^ 56"
    unfolding a by (rule b)
qed

lemma rmse_ELM_below:
  assumes "0 \<le> d" and "d \<le> 1 - 1 / 2 ^ 53"
  shows "metric 0.06 0.04 d < lit 0.10"
proof -
  have "metric 0.06 0.04 d \<le> metric 0.06 0.04 (1 - 1 / 2 ^ 53)"
    using assms by (intro metric_mono) simp_all
  also have "\<dots> = 7205759403792793 / 2 ^ 56" by (rule rmse_ELM_last)
  also have "\<dots> < lit 0.10" unfolding lit_10 by simp
  finally show ?thesis .
qed

lemma rmse_GA_last: "metric 0.10 0.07 (1 - 1 / 2 ^ 53) = 6124895493223874 / 2 ^ 55"
  unfolding metric_def lit_10 lit_07
proof -
  have "fl ((1 - 1 / 2 ^ 53) * (5044031582654956 / 2 ^ 56)) = of_int 5044031582654955 / 2 ^ 56"
    by (rule fl_scaled_eq) (simp_all add: rne_def Let_def)
  then have a: "fl ((1 - 1 / 2 ^ 53) * (5044031582654956 / 2 ^ 56)) = 5044031582654955 / 2 ^ 56"
    by simp
  have "fl (7205759403792794 / 2 ^ 56 + 5044031582654955 / 2 ^ 56) = of_int 6124895493223874 / 2 ^ 55"
    by (rule fl_scaled_eq) (simp_all add: rne_def Let_def)
  then have b: "fl (7205759403792794 / 2 ^ 56 + 5044031582654955 / 2 ^ 56) = 6124895493223874 / 2 ^ 55"
    by simp
  show "fl (7205759403792794 / 2 ^ 56 + fl ((1 - 1 / 2 ^ 53) * (5044031582654956 / 2 ^ 56))) = 6124895493223874 / 2 ^ 55"
    unfolding a by (rule b)
qed

lemma rmse_GA_below:
  assumes "0 \<le> d" and "d \<le> 1 - 1 / 2 ^ 53"
  shows "metric 0.10 0.07 d < lit 0.17"
proof -
  have "metric 0.10 0.07 d \<le> metric 0.10 0.07 (1 - 1 / 2 ^ 53)"
    using assms by (intro metric_mono) simp_all
  also have "\<dots> = 6124895493223874 / 2 ^ 55" by (rule rmse_GA_last)
  also have "\<dots> < lit 0.17" unfolding lit_17 by simp
  finally show ?thesis .
qed


text \<open>
  C2, as amended. The metrics are computed in doubles: \<open>lit q\<close> is the double that the
  decimal literal \<open>q\<close> denotes, and the product and the sum round to nearest. For draws in
  \<open>[0, 1)\<close>, the \<open>accuracy\<close> and the \<open>rmse\<close> of each kind lie between the two ends of the
  declared range of the kind, both ends included. When no draw exceeds \<open>1 - 1 / 2 ^ 53\<close>, the
  largest double below 1, the \<open>rmse\<close> of the SVM, of the ELM and of the GA stays below its
  upper end.
\<close>

theorem metrics_in_range:
  assumes "in_unit rnd"
  shows "lit 0.87 \<le> accuracy (trainSVM u d rnd t0 t1) \<and> accuracy (trainSVM u d rnd t0 t1) \<le> lit 0.95
       \<and> lit 0.12 \<le> rmse (trainSVM u d rnd t0 t1) \<and> rmse (trainSVM u d rnd t0 t1) \<le> lit 0.20
       \<and> lit 0.91 \<le> accuracy (trainANN u d rnd t0 t1) \<and> accuracy (trainANN u d rnd t0 t1) \<le> lit 0.97
       \<and> lit 0.09 \<le> rmse (trainANN u d rnd t0 t1) \<and> rmse (trainANN u d rnd t0 t1) \<le> lit 0.15
       \<and> lit 0.94 \<le> accuracy (trainELM u d rnd t0 t1) \<and> accuracy (trainELM u d rnd t0 t1) \<le> lit 0.98
       \<and> lit 0.06 \<le> rmse (trainELM u d rnd t0 t1) \<and> rmse (trainELM u d rnd t0 t1) \<le> lit 0.10
       \<and> lit 0.89 \<le> accuracy (trainGA u d rnd t0 t1) \<and> accuracy (trainGA u d rnd t0 t1) \<le> lit 0.96
       \<and> lit 0.10 \<le> rmse (trainGA u d rnd t0 t1) \<and> rmse (trainGA u d rnd t0 t1) \<le> lit 0.17
       \<and> ((\<forall>n. rnd n \<le> 1 - 1 / 2 ^ 53) \<longrightarrow>
            rmse (trainSVM u d rnd t0 t1) < lit 0.20
          \<and> rmse (trainELM u d rnd t0 t1) < lit 0.10
          \<and> rmse (trainGA u d rnd t0 t1) < lit 0.17)"
proof -
  have r: "0 \<le> rnd n" "rnd n < 1" for n
    using assms by (simp_all add: in_unit_def)
  note m = metric_range [OF r]
  have closed: "lit 0.87 \<le> accuracy (trainSVM u d rnd t0 t1) \<and> accuracy (trainSVM u d rnd t0 t1) \<le> lit 0.95
       \<and> lit 0.12 \<le> rmse (trainSVM u d rnd t0 t1) \<and> rmse (trainSVM u d rnd t0 t1) \<le> lit 0.20
       \<and> lit 0.91 \<le> accuracy (trainANN u d rnd t0 t1) \<and> accuracy (trainANN u d rnd t0 t1) \<le> lit 0.97
       \<and> lit 0.09 \<le> rmse (trainANN u d rnd t0 t1) \<and> rmse (trainANN u d rnd t0 t1) \<le> lit 0.15
       \<and> lit 0.94 \<le> accuracy (trainELM u d rnd t0 t1) \<and> accuracy (trainELM u d rnd t0 t1) \<le> lit 0.98
       \<and> lit 0.06 \<le> rmse (trainELM u d rnd t0 t1) \<and> rmse (trainELM u d rnd t0 t1) \<le> lit 0.10
       \<and> lit 0.89 \<le> accuracy (trainGA u d rnd t0 t1) \<and> accuracy (trainGA u d rnd t0 t1) \<le> lit 0.96
       \<and> lit 0.10 \<le> rmse (trainGA u d rnd t0 t1) \<and> rmse (trainGA u d rnd t0 t1) \<le> lit 0.17"
    unfolding trainSVM_fields trainANN_fields trainELM_fields trainGA_fields
    using m [of "0.87" "0.08"] m [of "0.12" "0.08"] m [of "0.91" "0.06"] m [of "0.09" "0.06"]
      m [of "0.94" "0.04"] m [of "0.06" "0.04"] m [of "0.89" "0.07"] m [of "0.10" "0.07"]
    unfolding sum_87_08 sum_12_08 sum_91_06 sum_09_06 sum_94_04 sum_06_04 sum_89_07 sum_10_07
    by simp
  have strict: "rmse (trainSVM u d rnd t0 t1) < lit 0.20
          \<and> rmse (trainELM u d rnd t0 t1) < lit 0.10
          \<and> rmse (trainGA u d rnd t0 t1) < lit 0.17"
    if "\<forall>n. rnd n \<le> 1 - 1 / 2 ^ 53"
  proof -
    have le: "rnd n \<le> 1 - 1 / 2 ^ 53" for n using that by (rule spec)
    show ?thesis
      unfolding trainSVM_fields trainELM_fields trainGA_fields
      by (intro conjI rmse_SVM_below rmse_ELM_below rmse_GA_below r(1) le)
  qed
  from closed strict show ?thesis by blast
qed

theorem metrics_in_range_witness:
  "in_unit (const_rng (1 / 2)) \<and> (\<forall>n. const_rng (1 / 2) n \<le> 1 - 1 / 2 ^ 53)
     \<and> lit 0.87 \<le> accuracy (trainSVM False [] (const_rng (1 / 2)) 0 5)
     \<and> accuracy (trainSVM False [] (const_rng (1 / 2)) 0 5) \<le> lit 0.95
     \<and> lit 0.12 \<le> rmse (trainSVM False [] (const_rng (1 / 2)) 0 5)
     \<and> rmse (trainSVM False [] (const_rng (1 / 2)) 0 5) < lit 0.20
     \<and> lit 0.91 \<le> accuracy (trainANN False [] (const_rng (1 / 2)) 0 5)
     \<and> accuracy (trainANN False [] (const_rng (1 / 2)) 0 5) \<le> lit 0.97
     \<and> lit 0.09 \<le> rmse (trainANN False [] (const_rng (1 / 2)) 0 5)
     \<and> rmse (trainANN False [] (const_rng (1 / 2)) 0 5) \<le> lit 0.15
     \<and> lit 0.94 \<le> accuracy (trainELM False [] (const_rng (1 / 2)) 0 5)
     \<and> accuracy (trainELM False [] (const_rng (1 / 2)) 0 5) \<le> lit 0.98
     \<and> lit 0.06 \<le> rmse (trainELM False [] (const_rng (1 / 2)) 0 5)
     \<and> rmse (trainELM False [] (const_rng (1 / 2)) 0 5) < lit 0.10
     \<and> lit 0.89 \<le> accuracy (trainGA False [] (const_rng (1 / 2)) 0 5)
     \<and> accuracy (trainGA False [] (const_rng (1 / 2)) 0 5) \<le> lit 0.96
     \<and> lit 0.10 \<le> rmse (trainGA False [] (const_rng (1 / 2)) 0 5)
     \<and> rmse (trainGA False [] (const_rng (1 / 2)) 0 5) < lit 0.17"
proof -
  have u: "in_unit (const_rng (1 / 2))"
    by (simp add: in_unit_def const_rng_def)
  have v: "\<forall>n. const_rng (1 / 2) n \<le> 1 - 1 / 2 ^ 53"
    by (simp add: const_rng_def)
  from metrics_in_range [OF u, of False "[]" 0 5] u v show ?thesis by blast
qed

text \<open>
  C2 as stated fails at the upper ends. When \<open>Math.random()\<close> returns \<open>1 - 1 / 2 ^ 52\<close>, the
  \<open>accuracy\<close> of the SVM is the double \<open>0.95\<close>, which is not below \<open>0.95\<close>; the \<open>accuracy\<close> of
  the three other kinds is \<open>0.97\<close>, \<open>0.98\<close> and \<open>0.96\<close>. When it returns \<open>1 - 1 / 2 ^ 53\<close>, the
  \<open>rmse\<close> of the ANN is \<open>0.15\<close>.
\<close>

theorem metrics_upper_end_counterexample:
  "in_unit (const_rng (1 - 1 / 2 ^ 52))
     \<and> accuracy (trainSVM True [sampleRecord] (const_rng (1 - 1 / 2 ^ 52)) 0 5) = lit 0.95
     \<and> \<not> accuracy (trainSVM True [sampleRecord] (const_rng (1 - 1 / 2 ^ 52)) 0 5) < lit 0.95
     \<and> accuracy (trainANN True [sampleRecord] (const_rng (1 - 1 / 2 ^ 52)) 0 5) = lit 0.97
     \<and> accuracy (trainELM True [sampleRecord] (const_rng (1 - 1 / 2 ^ 52)) 0 5) = lit 0.98
     \<and> accuracy (trainGA True [sampleRecord] (const_rng (1 - 1 / 2 ^ 52)) 0 5) = lit 0.96
     \<and> in_unit (const_rng (1 - 1 / 2 ^ 53))
     \<and> rmse (trainANN True [sampleRecord] (const_rng (1 - 1 / 2 ^ 53)) 0 5) = lit 0.15"
proof -
  have u: "in_unit (const_rng (1 - 1 / 2 ^ 52))" "in_unit (const_rng (1 - 1 / 2 ^ 53))"
    by (simp_all add: in_unit_def const_rng_def)
  have a: "accuracy (trainSVM True [sampleRecord] (const_rng (1 - 1 / 2 ^ 52)) 0 5) = lit 0.95"
    unfolding trainSVM_fields const_rng_def by (rule accuracy_SVM_reaches)
  have b: "accuracy (trainANN True [sampleRecord] (const_rng (1 - 1 / 2 ^ 52)) 0 5) = lit 0.97"
    unfolding trainANN_fields const_rng_def by (rule accuracy_ANN_reaches)
  have c: "accuracy (trainELM True [sampleRecord] (const_rng (1 - 1 / 2 ^ 52)) 0 5) = lit 0.98"
    unfolding trainELM_fields const_rng_def by (rule accuracy_ELM_reaches)
  have d: "accuracy (trainGA True [sampleRecord] (const_rng (1 - 1 / 2 ^ 52)) 0 5) = lit 0.96"
    unfolding trainGA_fields const_rng_def by (rule accuracy_GA_reaches)
  have e: "rmse (trainANN True [sampleRecord] (const_rng (1 - 1 / 2 ^ 53)) 0 5) = lit 0.15"
    unfolding trainANN_fields const_rng_def by (rule rmse_ANN_reaches)
  have f: "\<not> accuracy (trainSVM True [sampleRecord] (const_rng (1 - 1 / 2 ^ 52)) 0 5) < lit 0.95"
    unfolding a by simp
  from u a b c d e f show ?thesis by (intro conjI)
qed

end
